theory Spec2Isabelle
  imports Complex_Main "HOL-Library.Product_Lexorder"
begin

section \<open>Exceptions as values\<close>

text \<open>
  The Python exceptions the modelled code can raise.  \<open>DivisionByZero\<close> and
  \<open>InvalidOperation\<close> are the two signals of the \<open>decimal\<close> module that the default
  context traps on a division (\<open>x / 0\<close> raises the first, \<open>0 / 0\<close> signals
  division-undefined and raises the second; a \<open>quantize\<close> whose result does not fit the
  precision raises the second as well).  \<open>AttributeError\<close> is an attribute access on
  \<open>None\<close>, \<open>TypeError\<close> a call of a value that is not callable, \<open>DoesNotExist\<close> a failed
  foreign-key fetch and \<open>IntegrityError\<close> a violated uniqueness constraint.
\<close>

datatype error =
  DivisionByZero | InvalidOperation | AttributeError | TypeError | DoesNotExist | IntegrityError

definition bindE :: "error + 'a \<Rightarrow> ('a \<Rightarrow> error + 'b) \<Rightarrow> error + 'b" where
  "bindE m f = (case m of Inl e \<Rightarrow> Inl e | Inr x \<Rightarrow> f x)"

fun for_each :: "('s \<Rightarrow> 'a \<Rightarrow> error + 's) \<Rightarrow> 's \<Rightarrow> 'a list \<Rightarrow> error + 's" where
  "for_each f s [] = Inr s"
| "for_each f s (x # xs) = bindE (f s x) (\<lambda>s'. for_each f s' xs)"

section \<open>Python's \<open>decimal.Decimal\<close> under the default context\<close>

text \<open>
  A finite decimal is a sign, a coefficient and an exponent: the value is
  \<open>(-1)^sign * coefficient * 10^exponent\<close>.  The default context has precision 28 and
  rounds half to even; it traps invalid-operation, division-by-zero and overflow, so no
  operation returns a NaN or an infinity: it raises instead, and the type below has
  neither.  The exponent limits of the context (\<open>Emin = -999999\<close>, \<open>Emax = 999999\<close>) are
  not modelled: exponents are unbounded integers.
\<close>

datatype decimal = Decimal (dec_sign: bool) (dec_int: nat) (dec_exp: int)

definition prec :: nat where
  "prec = 28"

text \<open>The number of decimal digits of a coefficient (\<open>len(str(n))\<close>).\<close>

fun ndigits :: "nat \<Rightarrow> nat" where
  "ndigits n = (if n < 10 then 1 else Suc (ndigits (n div 10)))"

declare ndigits.simps [simp del]

text \<open>\<open>c / 10^k\<close> rounded to an integer, ties to the even neighbour.\<close>

definition round_half_even :: "nat \<Rightarrow> nat \<Rightarrow> nat" where
  "round_half_even c k =
     (let q = c div 10 ^ k; r = c mod 10 ^ k
      in if 10 ^ k < 2 * r \<or> (2 * r = 10 ^ k \<and> odd q) then q + 1 else q)"

text \<open>\<open>Decimal._fix\<close>: round a result to the precision of the context.\<close>

definition Decimal_fix :: "decimal \<Rightarrow> decimal" where
  "Decimal_fix d =
     (let n = ndigits (dec_int d)
      in if n \<le> prec then d
         else let k = n - prec; c = round_half_even (dec_int d) k
              in if prec < ndigits c
                 then Decimal (dec_sign d) (c div 10) (dec_exp d + int k + 1)
                 else Decimal (dec_sign d) c (dec_exp d + int k))"

text \<open>\<open>Decimal(n)\<close> for a Python integer.\<close>

definition Decimal_of_int :: "int \<Rightarrow> decimal" where
  "Decimal_of_int n = Decimal (n < 0) (nat \<bar>n\<bar>) 0"

text \<open>The signed coefficient, and the signed coefficient at a lower exponent \<open>e\<close>.\<close>

definition signed_int :: "decimal \<Rightarrow> int" where
  "signed_int d = (if dec_sign d then - int (dec_int d) else int (dec_int d))"

definition aligned :: "decimal \<Rightarrow> int \<Rightarrow> int" where
  "aligned d e = signed_int d * 10 ^ nat (dec_exp d - e)"

text \<open>The rational number a decimal denotes.\<close>

definition Decimal_val :: "decimal \<Rightarrow> rat" where
  "Decimal_val d = of_int (signed_int d) * 10 powi dec_exp d"

text \<open>\<open>Decimal.__eq__\<close> and \<open>Decimal.__lt__\<close> compare values, not representations.\<close>

definition Decimal_eq :: "decimal \<Rightarrow> decimal \<Rightarrow> bool" where
  "Decimal_eq a b = (let e = min (dec_exp a) (dec_exp b) in aligned a e = aligned b e)"

definition Decimal_lt :: "decimal \<Rightarrow> decimal \<Rightarrow> bool" where
  "Decimal_lt a b = (let e = min (dec_exp a) (dec_exp b) in aligned a e < aligned b e)"

text \<open>\<open>Decimal.__mul__\<close>.\<close>

definition Decimal_mul :: "decimal \<Rightarrow> decimal \<Rightarrow> decimal" where
  "Decimal_mul a b =
     Decimal_fix (Decimal (dec_sign a \<noteq> dec_sign b) (dec_int a * dec_int b) (dec_exp a + dec_exp b))"

text \<open>
  \<open>Decimal.__add__\<close>: the exact sum at the smaller exponent, rounded to the precision.
  Two zeros keep a minus sign only when both carry it; opposite operands cancel to
  a positive zero.
\<close>

definition Decimal_add :: "decimal \<Rightarrow> decimal \<Rightarrow> decimal" where
  "Decimal_add a b =
     (let e = min (dec_exp a) (dec_exp b); s = aligned a e + aligned b e
      in if dec_int a = 0 \<and> dec_int b = 0
         then Decimal_fix (Decimal (dec_sign a \<and> dec_sign b) 0 e)
         else Decimal_fix (Decimal (s < 0) (nat \<bar>s\<bar>) e))"

text \<open>
  \<open>Decimal.__truediv__\<close>.  The loop of an exact quotient strips trailing zeros while the
  exponent is below the ideal one.
\<close>

function strip_to_ideal :: "nat \<Rightarrow> int \<Rightarrow> int \<Rightarrow> nat \<times> int" where
  "strip_to_ideal coeff e ideal_e =
     (if e < ideal_e \<and> coeff mod 10 = 0
      then strip_to_ideal (coeff div 10) (e + 1) ideal_e
      else (coeff, e))"
  by pat_completeness auto
termination
proof (relation "measure (\<lambda>(coeff, e, ideal_e). nat (ideal_e - e))")
  show "wf (measure (\<lambda>(coeff, e, ideal_e). nat (ideal_e - e)))"
    by (rule wf_measure)
next
  fix coeff :: nat and e ideal_e :: int
  assume "e < ideal_e \<and> coeff mod 10 = 0"
  then have "nat (ideal_e - (e + 1)) < nat (ideal_e - e)"
    by linarith
  then show "((coeff div 10, e + 1, ideal_e), coeff, e, ideal_e)
      \<in> measure (\<lambda>(coeff, e, ideal_e). nat (ideal_e - e))"
    by simp
qed

declare strip_to_ideal.simps [simp del]

definition Decimal_truediv :: "decimal \<Rightarrow> decimal \<Rightarrow> error + decimal" where
  "Decimal_truediv a b =
     (let sign = (dec_sign a \<noteq> dec_sign b)
      in if dec_int b = 0
         then (if dec_int a = 0 then Inl InvalidOperation else Inl DivisionByZero)
         else if dec_int a = 0
         then Inr (Decimal_fix (Decimal sign 0 (dec_exp a - dec_exp b)))
         else
           let shift = int (ndigits (dec_int b)) - int (ndigits (dec_int a)) + int prec + 1;
               e = dec_exp a - dec_exp b - shift;
               num = (if 0 \<le> shift then dec_int a * 10 ^ nat shift else dec_int a);
               den = (if 0 \<le> shift then dec_int b else dec_int b * 10 ^ nat (- shift));
               coeff = num div den;
               remainder = num mod den
           in if remainder \<noteq> 0
              then Inr (Decimal_fix (Decimal sign (if coeff mod 5 = 0 then coeff + 1 else coeff) e))
              else (case strip_to_ideal coeff e (dec_exp a - dec_exp b) of
                      (coeff', e') \<Rightarrow> Inr (Decimal_fix (Decimal sign coeff' e'))))"

text \<open>
  \<open>Decimal._rescale\<close>, \<open>Decimal.quantize\<close> and \<open>Decimal.__round__\<close> with a number of places:
  \<open>round(x, n)\<close> is \<open>x.quantize(Decimal('1E-n'))\<close>, which raises when the result would
  need more digits than the precision.
\<close>

definition Decimal_rescale :: "decimal \<Rightarrow> int \<Rightarrow> decimal" where
  "Decimal_rescale d e =
     (if dec_int d = 0 then Decimal (dec_sign d) 0 e
      else if e \<le> dec_exp d
      then Decimal (dec_sign d) (dec_int d * 10 ^ nat (dec_exp d - e)) e
      else Decimal (dec_sign d) (round_half_even (dec_int d) (nat (e - dec_exp d))) e)"

definition Decimal_quantize :: "decimal \<Rightarrow> int \<Rightarrow> error + decimal" where
  "Decimal_quantize d e =
     (if dec_int d = 0 then Inr (Decimal_fix (Decimal (dec_sign d) 0 e))
      else if int prec < dec_exp d + int (ndigits (dec_int d)) - e then Inl InvalidOperation
      else let ans = Decimal_rescale d e
           in if prec < ndigits (dec_int ans) then Inl InvalidOperation
              else Inr (Decimal_fix ans))"

definition Decimal_round :: "decimal \<Rightarrow> nat \<Rightarrow> error + decimal" where
  "Decimal_round d n = Decimal_quantize d (- int n)"

section \<open>The database aggregate and \<open>field_sum\<close>\<close>

text \<open>
  \<open>queryset.aggregate(Sum(fieldname))\<close> is computed by the database: \<open>None\<close> over no rows,
  otherwise the exact sum of the column (a \<open>numeric\<close> sum is not rounded to a precision).
  A query result is a list of rows in the order the table holds them.
\<close>

definition numeric_add :: "decimal \<Rightarrow> decimal \<Rightarrow> decimal" where
  "numeric_add a b =
     (let e = min (dec_exp a) (dec_exp b); s = aligned a e + aligned b e
      in Decimal (s < 0) (nat \<bar>s\<bar>) e)"

fun aggregate_Sum :: "decimal list \<Rightarrow> decimal option" where
  "aggregate_Sum [] = None"
| "aggregate_Sum (x # xs) = Some (foldl numeric_add x xs)"

fun aggregate_Sum_integer :: "nat list \<Rightarrow> nat option" where
  "aggregate_Sum_integer [] = None"
| "aggregate_Sum_integer (x # xs) = Some (foldl (+) x xs)"

text \<open>
  A value that is a Python \<open>int\<close> or a \<open>Decimal\<close>, for the results whose type depends on
  the branch taken.
\<close>

datatype number = PyInt int | PyDecimal decimal

text \<open>\<open>Decimal(x)\<close> for such a value.\<close>

fun Decimal_new :: "number \<Rightarrow> decimal" where
  "Decimal_new (PyInt n) = Decimal_of_int n"
| "Decimal_new (PyDecimal d) = d"

definition number_val :: "number \<Rightarrow> rat" where
  "number_val x = Decimal_val (Decimal_new x)"

text \<open>
  \<open>field_sum(queryset, fieldname)\<close> is \<open>aggregate(...)[...] or Decimal(0)\<close>: Python's \<open>or\<close>
  replaces \<open>None\<close> and every zero by \<open>Decimal(0)\<close>.  The function is used on decimal
  columns (\<open>cost\<close>, \<open>cost_estimate\<close>, \<open>percentage\<close>) and on one integer column
  (\<open>user_count\<close>); the two uses are the two definitions below.
\<close>

definition field_sum :: "decimal list \<Rightarrow> decimal" where
  "field_sum column =
     (case aggregate_Sum column of
        None \<Rightarrow> Decimal_of_int 0
      | Some s \<Rightarrow> if dec_int s \<noteq> 0 then s else Decimal_of_int 0)"

definition field_sum_integer :: "nat list \<Rightarrow> number" where
  "field_sum_integer column =
     (case aggregate_Sum_integer column of
        None \<Rightarrow> PyDecimal (Decimal_of_int 0)
      | Some n \<Rightarrow> if n \<noteq> 0 then PyInt (int n) else PyDecimal (Decimal_of_int 0))"

section \<open>The models of \<open>recoup/models.py\<close>\<close>

text \<open>
  Each model is a record of the fields the modelled methods read or write (names,
  descriptions, dates of contracts and the like are left out).  A primary key is
  \<open>None\<close> on an instance that was never saved.  \<open>Cost\<close> is a concrete model with the two
  children \<open>EndUserCost\<close> and \<open>ITPlatformCost\<close> (multi-table inheritance): a row of the
  \<open>Cost\<close> table is of one of the kinds below, a child carrying its own foreign key.
  A date is the triple (year, month, day), ordered lexicographically as Python orders
  dates.
\<close>

type_synonym date = "int \<times> nat \<times> nat"

record FinancialYear =
  fy_id :: nat
  fy_start :: date
  fy_end :: date

record Bill =
  bill_id :: "nat option"
  bill_contract :: nat
  bill_year :: nat
  bill_cost :: decimal
  bill_cost_estimate :: decimal
  bill_active :: bool

datatype cost_kind = PlainCost | EndUserCost nat | ITPlatformCost nat

record Cost =
  cost_id :: "nat option"
  cost_kind :: cost_kind
  cost_bill :: nat
  cost_percentage :: decimal
  cost_service_pool :: nat
  cost_cost :: decimal
  cost_cost_estimate :: decimal

record Division =
  division_id :: nat
  division_user_count :: nat

record EndUserService =
  service_id :: nat

record Platform =
  platform_id :: "nat option"
  platform_system_count :: nat

record SystemDependency =
  sd_id :: "nat option"
  sd_system :: nat
  sd_platform :: nat

text \<open>
  The state of the database: one list of rows per table, and the many-to-many table of
  \<open>EndUserService.divisions\<close> as pairs (service, division).
\<close>

record database =
  financialyears :: "FinancialYear list"
  bills :: "Bill list"
  costs :: "Cost list"
  divisions :: "Division list"
  enduserservices :: "EndUserService list"
  enduserservice_divisions :: "(nat \<times> nat) list"
  platforms :: "Platform list"
  systemdependencys :: "SystemDependency list"

text \<open>Every row of a table has a primary key, and the keys of a table are distinct.\<close>

definition keys_ok :: "nat option list \<Rightarrow> bool" where
  "keys_ok pks = (distinct pks \<and> None \<notin> set pks)"

definition primary_keys_ok :: "database \<Rightarrow> bool" where
  "primary_keys_ok db =
     (keys_ok (map bill_id (bills db)) \<and> keys_ok (map cost_id (costs db)) \<and>
      keys_ok (map platform_id (platforms db)) \<and> keys_ok (map sd_id (systemdependencys db)))"

section \<open>Persistence\<close>

text \<open>
  What \<open>Model.save\<close> does to the table between the two signals: an instance with a
  primary key updates the row of that key, or is inserted when there is none; an
  instance without one is inserted under a fresh key.  The result is the new table and
  the row as it is stored.
\<close>

definition fresh_pk :: "nat option list \<Rightarrow> nat" where
  "fresh_pk pks = Suc (fold max (List.map_filter id pks) 0)"

definition save_table ::
    "('r \<Rightarrow> nat option) \<Rightarrow> (nat \<Rightarrow> 'r \<Rightarrow> 'r) \<Rightarrow> 'r list \<Rightarrow> 'r \<Rightarrow> 'r list \<times> 'r" where
  "save_table pk set_pk rows inst =
     (case pk inst of
        Some i \<Rightarrow>
          if Some i \<in> set (map pk rows)
          then (map (\<lambda>r. if pk r = Some i then inst else r) rows, inst)
          else (rows @ [inst], inst)
      | None \<Rightarrow>
          let inst' = set_pk (fresh_pk (map pk rows)) inst
          in (rows @ [inst'], inst'))"

definition Bill_persist :: "database \<Rightarrow> Bill \<Rightarrow> database \<times> Bill" where
  "Bill_persist db b =
     (case save_table bill_id (\<lambda>i r. r\<lparr>bill_id := Some i\<rparr>) (bills db) b of
        (rows, b') \<Rightarrow> (db\<lparr>bills := rows\<rparr>, b'))"

text \<open>
  A value written to a \<open>DecimalField\<close> column is brought to the \<open>decimal_places\<close> of the
  column by the database adapter (\<open>adapt_decimalfield_value\<close>: a \<open>quantize\<close> under the
  rounding of the context, half to even).  \<open>Cost.cost\<close> and \<open>Cost.cost_estimate\<close> are
  \<open>DecimalField(max_digits=12, decimal_places=2)\<close> and receive what \<open>Cost.pre_save\<close>
  computed, which has more places: \<open>Cost_row\<close> is the row the table holds for an
  instance.  The columns a user enters (\<open>Cost.percentage\<close>, the figures of a \<open>Bill\<close>)
  are stored as the instance holds them, and a value too long for \<open>max_digits\<close>, which
  the adapter refuses, is not modelled.
\<close>

definition adapt_decimalfield_value :: "nat \<Rightarrow> decimal \<Rightarrow> decimal" where
  "adapt_decimalfield_value decimal_places d = Decimal_rescale d (- int decimal_places)"

definition Cost_row :: "Cost \<Rightarrow> Cost" where
  "Cost_row c =
     c\<lparr>cost_cost := adapt_decimalfield_value 2 (cost_cost c),
       cost_cost_estimate := adapt_decimalfield_value 2 (cost_cost_estimate c)\<rparr>"

definition Cost_persist :: "database \<Rightarrow> Cost \<Rightarrow> database \<times> Cost" where
  "Cost_persist db c =
     (case save_table cost_id (\<lambda>i r. r\<lparr>cost_id := Some i\<rparr>) (costs db) (Cost_row c) of
        (rows, c') \<Rightarrow> (db\<lparr>costs := rows\<rparr>, c'))"

definition Platform_persist :: "database \<Rightarrow> Platform \<Rightarrow> database \<times> Platform" where
  "Platform_persist db p =
     (case save_table platform_id (\<lambda>i r. r\<lparr>platform_id := Some i\<rparr>) (platforms db) p of
        (rows, p') \<Rightarrow> (db\<lparr>platforms := rows\<rparr>, p'))"

text \<open>
  \<open>SystemDependency\<close> declares \<open>unique_together = (("system", "platform"),)\<close>: a second row
  with the pair of another row is refused.
\<close>

definition SystemDependency_persist ::
    "database \<Rightarrow> SystemDependency \<Rightarrow> error + database \<times> SystemDependency" where
  "SystemDependency_persist db sd =
     (if list_ex (\<lambda>r. sd_system r = sd_system sd \<and> sd_platform r = sd_platform sd \<and>
                       (sd_id sd = None \<or> sd_id r \<noteq> sd_id sd)) (systemdependencys db)
      then Inl IntegrityError
      else (case save_table sd_id (\<lambda>i r. r\<lparr>sd_id := Some i\<rparr>) (systemdependencys db) sd of
              (rows, sd') \<Rightarrow> Inr (db\<lparr>systemdependencys := rows\<rparr>, sd')))"

text \<open>Fetching the target of a foreign key: the row with that primary key.\<close>

definition Bill_objects_get :: "database \<Rightarrow> nat \<Rightarrow> error + Bill" where
  "Bill_objects_get db i =
     (case find (\<lambda>b. bill_id b = Some i) (bills db) of
        None \<Rightarrow> Inl DoesNotExist | Some b \<Rightarrow> Inr b)"

definition Platform_objects_get :: "database \<Rightarrow> nat \<Rightarrow> error + Platform" where
  "Platform_objects_get db i =
     (case find (\<lambda>p. platform_id p = Some i) (platforms db) of
        None \<Rightarrow> Inl DoesNotExist | Some p \<Rightarrow> Inr p)"

section \<open>The hooks of the writes\<close>

text \<open>
  \<open>Cost.pre_save\<close>.  \<open>self.bill\<close> fetches the bill of the row.  The branch for an inactive
  bill assigns zeros and has no \<open>else\<close>: the two assignments after it run in every case.
\<close>

definition Cost_pre_save :: "database \<Rightarrow> Cost \<Rightarrow> error + Cost" where
  "Cost_pre_save db c =
     bindE (Bill_objects_get db (cost_bill c)) (\<lambda>bill.
       let c1 = (if \<not> bill_active bill
                 then c\<lparr>cost_cost := Decimal_of_int 0, cost_cost_estimate := Decimal_of_int 0\<rparr>
                 else c)
       in bindE (Decimal_truediv (Decimal_mul (bill_cost bill) (cost_percentage c1))
                   (Decimal_of_int 100)) (\<lambda>v.
            let c2 = c1\<lparr>cost_cost := v\<rparr>
            in bindE (Decimal_truediv (Decimal_mul (bill_cost_estimate bill) (cost_percentage c2))
                        (Decimal_of_int 100)) (\<lambda>w.
                 Inr (c2\<lparr>cost_cost_estimate := w\<rparr>))))"

text \<open>
  \<open>cost.save()\<close> on a \<open>Cost\<close> row: the pre-save hook finds \<open>Cost.pre_save\<close>, the row is
  written, and the post-save hook finds no \<open>post_save\<close> on a \<open>Cost\<close>.  \<open>platform.save()\<close>:
  a \<open>Platform\<close> has neither hook.
\<close>

definition Cost_save :: "database \<Rightarrow> Cost \<Rightarrow> error + database" where
  "Cost_save db c = bindE (Cost_pre_save db c) (\<lambda>c'. Inr (fst (Cost_persist db c')))"

definition Platform_save :: "database \<Rightarrow> Platform \<Rightarrow> error + database" where
  "Platform_save db p = Inr (fst (Platform_persist db p))"

text \<open>
  \<open>Bill.post_save\<close>: the two loops over \<open>EndUserCost.objects.filter(bill=self)\<close> and
  \<open>ITPlatformCost.objects.filter(bill=self)\<close>; the second query runs after the first loop.
\<close>

fun is_EndUserCost :: "cost_kind \<Rightarrow> bool" where
  "is_EndUserCost (EndUserCost s) = True"
| "is_EndUserCost k = False"

fun is_ITPlatformCost :: "cost_kind \<Rightarrow> bool" where
  "is_ITPlatformCost (ITPlatformCost p) = True"
| "is_ITPlatformCost k = False"

definition EndUserCost_objects_filter_bill :: "database \<Rightarrow> Bill \<Rightarrow> Cost list" where
  "EndUserCost_objects_filter_bill db b =
     filter (\<lambda>c. is_EndUserCost (cost_kind c) \<and> Some (cost_bill c) = bill_id b) (costs db)"

definition ITPlatformCost_objects_filter_bill :: "database \<Rightarrow> Bill \<Rightarrow> Cost list" where
  "ITPlatformCost_objects_filter_bill db b =
     filter (\<lambda>c. is_ITPlatformCost (cost_kind c) \<and> Some (cost_bill c) = bill_id b) (costs db)"

definition Bill_post_save :: "database \<Rightarrow> Bill \<Rightarrow> error + database" where
  "Bill_post_save db b =
     bindE (for_each Cost_save db (EndUserCost_objects_filter_bill db b)) (\<lambda>db1.
       for_each Cost_save db1 (ITPlatformCost_objects_filter_bill db1 b))"

text \<open>
  \<open>SystemDependency.post_save\<close>: \<open>self.platform\<close> fetches the platform of the row,
  \<open>systemdependency_set.count()\<close> counts the rows that reference it.
\<close>

definition SystemDependency_post_save :: "database \<Rightarrow> SystemDependency \<Rightarrow> error + database" where
  "SystemDependency_post_save db sd =
     bindE (Platform_objects_get db (sd_platform sd)) (\<lambda>p.
       Platform_save db
         (p\<lparr>platform_system_count :=
              length (filter (\<lambda>r. sd_platform r = sd_platform sd) (systemdependencys db))\<rparr>))"

text \<open>
  The two receivers, connected to the signals of every model.  \<open>raw\<close> is true when a
  fixture is loaded.  Of the saved models only \<open>Cost\<close> (with its children) has a
  \<open>pre_save\<close>, only \<open>Bill\<close> and \<open>SystemDependency\<close> have a \<open>post_save\<close>.
\<close>

datatype model_instance =
  BillInstance Bill | CostInstance Cost | PlatformInstance Platform
| SystemDependencyInstance SystemDependency

definition pre_save_hook :: "bool \<Rightarrow> database \<Rightarrow> model_instance \<Rightarrow> error + model_instance" where
  "pre_save_hook raw db inst =
     (if raw then Inr inst
      else (case inst of
              CostInstance c \<Rightarrow> bindE (Cost_pre_save db c) (\<lambda>c'. Inr (CostInstance c'))
            | _ \<Rightarrow> Inr inst))"

definition post_save_hook :: "bool \<Rightarrow> database \<Rightarrow> model_instance \<Rightarrow> error + database" where
  "post_save_hook raw db inst =
     (if raw then Inr db
      else (case inst of
              BillInstance b \<Rightarrow> Bill_post_save db b
            | SystemDependencyInstance sd \<Rightarrow> SystemDependency_post_save db sd
            | _ \<Rightarrow> Inr db))"

definition persist :: "database \<Rightarrow> model_instance \<Rightarrow> error + database \<times> model_instance" where
  "persist db inst =
     (case inst of
        BillInstance b \<Rightarrow> (case Bill_persist db b of (db', b') \<Rightarrow> Inr (db', BillInstance b'))
      | CostInstance c \<Rightarrow> (case Cost_persist db c of (db', c') \<Rightarrow> Inr (db', CostInstance c'))
      | PlatformInstance p \<Rightarrow>
          (case Platform_persist db p of (db', p') \<Rightarrow> Inr (db', PlatformInstance p'))
      | SystemDependencyInstance sd \<Rightarrow>
          bindE (SystemDependency_persist db sd) (\<lambda>(db', sd').
            Inr (db', SystemDependencyInstance sd')))"

text \<open>
  A write: the pre-save signal, the row, the post-save signal.  \<open>Model.save()\<close> is the
  write with \<open>raw\<close> false.  The result is the new state and the instance as saved (with
  its primary key).
\<close>

definition save_base :: "bool \<Rightarrow> database \<Rightarrow> model_instance \<Rightarrow> error + database \<times> model_instance" where
  "save_base raw db inst =
     bindE (pre_save_hook raw db inst) (\<lambda>inst1.
       bindE (persist db inst1) (\<lambda>(db1, inst2).
         bindE (post_save_hook raw db1 inst2) (\<lambda>db2. Inr (db2, inst2))))"

definition save :: "database \<Rightarrow> model_instance \<Rightarrow> error + database \<times> model_instance" where
  "save db inst = save_base False db inst"

section \<open>\<open>CostSummary\<close> and its subclasses\<close>

text \<open>
  An object of a model that extends \<open>CostSummary\<close>, with what its methods read: the
  primary key, and for a \<open>Division\<close> the instance (its \<open>user_count\<close>).
\<close>

datatype entity =
  AContract nat | AFinancialYear nat | AServicePool nat | ACost Cost | ADivision Division
| AnEndUserService nat | APlatform nat | AnITSystem nat | ASystemDependency nat

datatype queryset = BillRows "Bill list" | CostRows "Cost list"

text \<open>
  \<open>get_cost_queryset\<close>: overridden by \<open>Contract\<close>, \<open>FinancialYear\<close>, \<open>EndUserService\<close> and
  \<open>Platform\<close>; the others inherit \<open>objects.none()\<close>.
\<close>

definition get_cost_queryset :: "database \<Rightarrow> entity \<Rightarrow> queryset" where
  "get_cost_queryset db e =
     (case e of
        AContract i \<Rightarrow> BillRows (filter (\<lambda>b. bill_contract b = i \<and> bill_active b) (bills db))
      | AFinancialYear i \<Rightarrow> BillRows (filter (\<lambda>b. bill_year b = i) (bills db))
      | AnEndUserService i \<Rightarrow> CostRows (filter (\<lambda>c. cost_kind c = EndUserCost i) (costs db))
      | APlatform i \<Rightarrow> CostRows (filter (\<lambda>c. cost_kind c = ITPlatformCost i) (costs db))
      | _ \<Rightarrow> CostRows [])"

fun column_cost :: "queryset \<Rightarrow> decimal list" where
  "column_cost (BillRows bs) = map bill_cost bs"
| "column_cost (CostRows cs) = map cost_cost cs"

fun column_cost_estimate :: "queryset \<Rightarrow> decimal list" where
  "column_cost_estimate (BillRows bs) = map bill_cost_estimate bs"
| "column_cost_estimate (CostRows cs) = map cost_cost_estimate cs"

definition CostSummary_cost :: "database \<Rightarrow> entity \<Rightarrow> decimal" where
  "CostSummary_cost db e = field_sum (column_cost (get_cost_queryset db e))"

definition CostSummary_cost_estimate :: "database \<Rightarrow> entity \<Rightarrow> decimal" where
  "CostSummary_cost_estimate db e = field_sum (column_cost_estimate (get_cost_queryset db e))"

text \<open>\<open>EndUserService.total_user_count\<close> and \<open>division.enduserservice_set.all()\<close>.\<close>

definition EndUserService_total_user_count :: "database \<Rightarrow> nat \<Rightarrow> number" where
  "EndUserService_total_user_count db s =
     field_sum_integer
       (map division_user_count
          (filter (\<lambda>d. (s, division_id d) \<in> set (enduserservice_divisions db)) (divisions db)))"

definition Division_enduserservice_set :: "database \<Rightarrow> Division \<Rightarrow> EndUserService list" where
  "Division_enduserservice_set db d =
     filter (\<lambda>s. (service_id s, division_id d) \<in> set (enduserservice_divisions db))
       (enduserservices db)"

text \<open>\<open>Division.enduser_cost\<close> and \<open>Division.enduser_estimate\<close>: the loop with its total.\<close>

definition Division_enduser_cost :: "database \<Rightarrow> Division \<Rightarrow> error + decimal" where
  "Division_enduser_cost db d =
     for_each
       (\<lambda>total service.
          bindE (Decimal_truediv (Decimal_of_int (int (division_user_count d)))
                   (Decimal_new (EndUserService_total_user_count db (service_id service)))) (\<lambda>q.
            bindE (Decimal_round
                     (Decimal_mul q (CostSummary_cost db (AnEndUserService (service_id service)))) 2)
              (\<lambda>r. Inr (Decimal_add total r))))
       (Decimal_of_int 0) (Division_enduserservice_set db d)"

definition Division_enduser_estimate :: "database \<Rightarrow> Division \<Rightarrow> error + decimal" where
  "Division_enduser_estimate db d =
     for_each
       (\<lambda>total service.
          bindE (Decimal_truediv (Decimal_of_int (int (division_user_count d)))
                   (Decimal_new (EndUserService_total_user_count db (service_id service)))) (\<lambda>q.
            bindE (Decimal_round
                     (Decimal_mul q
                        (CostSummary_cost_estimate db (AnEndUserService (service_id service)))) 2)
              (\<lambda>r. Inr (Decimal_add total r))))
       (Decimal_of_int 0) (Division_enduserservice_set db d)"

text \<open>
  The call \<open>self.cost()\<close>, resolved by the class of \<open>self\<close>: \<open>Division\<close> overrides \<open>cost\<close>;
  on a \<open>Cost\<close> row the attribute \<open>cost\<close> is the value of the field of that name, a
  \<open>Decimal\<close>, and calling it raises \<open>TypeError\<close>; every other class inherits
  \<open>CostSummary.cost\<close>.  The same for \<open>cost_estimate\<close>.
\<close>

definition call_cost :: "database \<Rightarrow> entity \<Rightarrow> error + decimal" where
  "call_cost db e =
     (case e of
        ADivision d \<Rightarrow> Division_enduser_cost db d
      | ACost c \<Rightarrow> Inl TypeError
      | _ \<Rightarrow> Inr (CostSummary_cost db e))"

definition call_cost_estimate :: "database \<Rightarrow> entity \<Rightarrow> error + decimal" where
  "call_cost_estimate db e =
     (case e of
        ADivision d \<Rightarrow> Division_enduser_estimate db d
      | ACost c \<Rightarrow> Inl TypeError
      | _ \<Rightarrow> Inr (CostSummary_cost_estimate db e))"

text \<open>
  \<open>CostSummary.year\<close> is \<open>FinancialYear.objects.first()\<close>: the first row under the
  ordering of the model, \<open>("end",)\<close>, or \<open>None\<close>.  Among rows with the same end date the
  database is free to pick; the model takes the one the table holds first.
\<close>

definition CostSummary_year :: "database \<Rightarrow> FinancialYear option" where
  "CostSummary_year db =
     (case sort_key fy_end (financialyears db) of [] \<Rightarrow> None | y # ys \<Rightarrow> Some y)"

text \<open>
  \<open>CostSummary.cost_percentage\<close> and \<open>cost_estimate_percentage\<close>.  The guard returns the
  integer \<open>0\<close>; \<open>* 100\<close> multiplies by \<open>Decimal(100)\<close>.
\<close>

definition CostSummary_cost_percentage :: "database \<Rightarrow> entity \<Rightarrow> error + number" where
  "CostSummary_cost_percentage db e =
     (case CostSummary_year db of
        None \<Rightarrow> Inl AttributeError
      | Some y \<Rightarrow>
          bindE (call_cost db (AFinancialYear (fy_id y))) (\<lambda>year_cost.
            if Decimal_eq year_cost (Decimal_of_int 0) then Inr (PyInt 0)
            else bindE (call_cost db e) (\<lambda>c.
                   bindE (Decimal_truediv c year_cost) (\<lambda>q.
                     bindE (Decimal_round (Decimal_mul q (Decimal_of_int 100)) 2) (\<lambda>r.
                       Inr (PyDecimal r))))))"

definition CostSummary_cost_estimate_percentage :: "database \<Rightarrow> entity \<Rightarrow> error + number" where
  "CostSummary_cost_estimate_percentage db e =
     (case CostSummary_year db of
        None \<Rightarrow> Inl AttributeError
      | Some y \<Rightarrow>
          bindE (call_cost_estimate db (AFinancialYear (fy_id y))) (\<lambda>year_cost_est.
            if Decimal_eq year_cost_est (Decimal_of_int 0) then Inr (PyInt 0)
            else bindE (call_cost_estimate db e) (\<lambda>c.
                   bindE (Decimal_truediv c year_cost_est) (\<lambda>q.
                     bindE (Decimal_round (Decimal_mul q (Decimal_of_int 100)) 2) (\<lambda>r.
                       Inr (PyDecimal r))))))"

section \<open>\<open>Bill.allocated\<close> and the filter of \<open>recoup/admin.py\<close>\<close>

text \<open>\<open>self.cost_items.all()\<close>: the \<open>Cost\<close> rows of a bill, of every kind.\<close>

definition Bill_cost_items :: "database \<Rightarrow> Bill \<Rightarrow> Cost list" where
  "Bill_cost_items db b = filter (\<lambda>c. Some (cost_bill c) = bill_id b) (costs db)"

text \<open>\<open>Bill.allocated\<close> is \<open>field_sum(...) or 0\<close>: a zero sum becomes the integer \<open>0\<close>.\<close>

definition Bill_allocated :: "database \<Rightarrow> Bill \<Rightarrow> number" where
  "Bill_allocated db b =
     (let s = field_sum (map cost_percentage (Bill_cost_items db b))
      in if dec_int s \<noteq> 0 then PyDecimal s else PyInt 0)"

text \<open>
  \<open>AllocatedListFilter\<close>.  \<open>lookups\<close> pairs each value of the filter with its label.
  \<open>queryset\<close> annotates each bill with \<open>Sum("cost_items__percentage")\<close> (\<open>NULL\<close> for a bill
  without rows, which fails every comparison) and filters on it, except for the value
  \<open>"0"\<close>, which excludes the bills that have a row with a percentage above zero.  For
  any other value the method returns \<open>None\<close>.
\<close>

definition AllocatedListFilter_lookups :: "(string \<times> string) list" where
  "AllocatedListFilter_lookups =
     [(''0'', ''None''), (''lt_100'', ''Partially''), (''100'', ''100%''),
      (''gt_100'', ''Over allocated'')]"

definition cost_items__percentage__sum :: "database \<Rightarrow> Bill \<Rightarrow> decimal option" where
  "cost_items__percentage__sum db b = aggregate_Sum (map cost_percentage (Bill_cost_items db b))"

definition AllocatedListFilter_queryset ::
    "database \<Rightarrow> string \<Rightarrow> Bill list \<Rightarrow> Bill list option" where
  "AllocatedListFilter_queryset db v qs =
     (if v = ''0''
      then Some (filter (\<lambda>b. \<not> list_ex (\<lambda>c. Decimal_lt (Decimal_of_int 0) (cost_percentage c))
                                  (Bill_cost_items db b)) qs)
      else if v = ''lt_100''
      then Some (filter (\<lambda>b. case cost_items__percentage__sum db b of
                                None \<Rightarrow> False
                              | Some s \<Rightarrow> Decimal_lt s (Decimal_of_int 100) \<and>
                                          Decimal_lt (Decimal_of_int 0) s) qs)
      else if v = ''100''
      then Some (filter (\<lambda>b. case cost_items__percentage__sum db b of
                                None \<Rightarrow> False
                              | Some s \<Rightarrow> Decimal_eq s (Decimal_of_int 100)) qs)
      else if v = ''gt_100''
      then Some (filter (\<lambda>b. case cost_items__percentage__sum db b of
                                None \<Rightarrow> False
                              | Some s \<Rightarrow> Decimal_lt (Decimal_of_int 100) s) qs)
      else None)"

section \<open>Definitions used by the statements and proofs\<close>

text \<open>
  A division by \<open>Decimal(100)\<close> never raises; \<open>quotient100\<close> names its result,
  \<open>Cost_derived\<close> the instance that \<open>Cost.pre_save\<close> leaves for a given bill, and
  \<open>Cost_stored\<close> the row the table then holds for it.
\<close>

definition quotient100 :: "decimal \<Rightarrow> decimal" where
  "quotient100 x = (case Decimal_truediv x (Decimal_of_int 100) of Inr v \<Rightarrow> v | Inl e \<Rightarrow> x)"

definition Cost_derived :: "Bill \<Rightarrow> Cost \<Rightarrow> Cost" where
  "Cost_derived bill c =
     c\<lparr>cost_cost := quotient100 (Decimal_mul (bill_cost bill) (cost_percentage c)),
       cost_cost_estimate :=
         quotient100 (Decimal_mul (bill_cost_estimate bill) (cost_percentage c))\<rparr>"

definition Cost_stored :: "Bill \<Rightarrow> Cost \<Rightarrow> Cost" where
  "Cost_stored bill c = Cost_row (Cost_derived bill c)"

text \<open>
  The rows that depend on a bill (the rows \<open>Bill.post_save\<close> saves again), and a table
  after each row that satisfies \<open>Q\<close> was recomputed from \<open>bill\<close>.
\<close>

definition dependent :: "Bill \<Rightarrow> Cost \<Rightarrow> bool" where
  "dependent b c = (Some (cost_bill c) = bill_id b \<and> cost_kind c \<noteq> PlainCost)"

definition cascade_rows :: "(Cost \<Rightarrow> bool) \<Rightarrow> Bill \<Rightarrow> Cost list \<Rightarrow> Cost list" where
  "cascade_rows Q bill rows = map (\<lambda>r. if Q r then Cost_stored bill r else r) rows"

text \<open>
  The claim about \<open>Division.cost()\<close> in its own words: the share of a division in one
  service, \<open>round(user_count / total_user_count() * service.cost(), 2)\<close>, and the sum of
  a list of shares from \<open>Decimal(0)\<close>, where the first share that raises ends the sum.
\<close>

definition Division_share :: "database \<Rightarrow> Division \<Rightarrow> nat \<Rightarrow> error + decimal" where
  "Division_share db d s =
     bindE (Decimal_truediv (Decimal_of_int (int (division_user_count d)))
              (Decimal_new (EndUserService_total_user_count db s))) (\<lambda>q.
       Decimal_round (Decimal_mul q (CostSummary_cost db (AnEndUserService s))) 2)"

definition Division_share_estimate :: "database \<Rightarrow> Division \<Rightarrow> nat \<Rightarrow> error + decimal" where
  "Division_share_estimate db d s =
     bindE (Decimal_truediv (Decimal_of_int (int (division_user_count d)))
              (Decimal_new (EndUserService_total_user_count db s))) (\<lambda>q.
       Decimal_round (Decimal_mul q (CostSummary_cost_estimate db (AnEndUserService s))) 2)"

fun sum_shares :: "decimal \<Rightarrow> (error + decimal) list \<Rightarrow> error + decimal" where
  "sum_shares acc [] = Inr acc"
| "sum_shares acc (Inl e # rs) = Inl e"
| "sum_shares acc (Inr r # rs) = sum_shares (Decimal_add acc r) rs"

text \<open>
  The labels of the filter values under which a bill of the list \<open>qs\<close> is shown.
\<close>

definition AllocatedListFilter_labels :: "database \<Rightarrow> Bill list \<Rightarrow> Bill \<Rightarrow> string list" where
  "AllocatedListFilter_labels db qs b =
     map snd (filter (\<lambda>(v, label). case AllocatedListFilter_queryset db v qs of
                                       Some bs \<Rightarrow> b \<in> set bs | None \<Rightarrow> False)
                AllocatedListFilter_lookups)"

subsection \<open>Example states\<close>

text \<open>
  An inactive bill of 1000.00 (estimate 1200.00) with one cost row of 40.00 percent.
\<close>

definition inactive_bill :: Bill where
  "inactive_bill = \<lparr>bill_id = Some 1, bill_contract = 1, bill_year = 1,
     bill_cost = Decimal False 100000 (- 2), bill_cost_estimate = Decimal False 120000 (- 2),
     bill_active = False\<rparr>"

definition cost_40 :: Cost where
  "cost_40 = \<lparr>cost_id = Some 1, cost_kind = EndUserCost 1, cost_bill = 1,
     cost_percentage = Decimal False 4000 (- 2), cost_service_pool = 1,
     cost_cost = Decimal False 0 (- 2), cost_cost_estimate = Decimal False 0 (- 2)\<rparr>"

definition inactive_db :: database where
  "inactive_db = \<lparr>financialyears = [], bills = [inactive_bill], costs = [cost_40],
     divisions = [], enduserservices = [], enduserservice_divisions = [], platforms = [],
     systemdependencys = []\<rparr>"

text \<open>
  The same bill, active; the bill after an edit to 2000.00 (estimate 2400.00); a platform
  row of 60.00 percent whose stored figures are those of the bill before the edit; and a
  row of another bill.
\<close>

definition bill_1000 :: Bill where
  "bill_1000 = \<lparr>bill_id = Some 1, bill_contract = 1, bill_year = 1,
     bill_cost = Decimal False 100000 (- 2), bill_cost_estimate = Decimal False 120000 (- 2),
     bill_active = True\<rparr>"

definition bill_2000 :: Bill where
  "bill_2000 = bill_1000\<lparr>bill_cost := Decimal False 200000 (- 2),
     bill_cost_estimate := Decimal False 240000 (- 2)\<rparr>"

definition cost_60 :: Cost where
  "cost_60 = \<lparr>cost_id = Some 2, cost_kind = ITPlatformCost 1, cost_bill = 1,
     cost_percentage = Decimal False 6000 (- 2), cost_service_pool = 1,
     cost_cost = Decimal False 60000 (- 2), cost_cost_estimate = Decimal False 72000 (- 2)\<rparr>"

definition cost_other :: Cost where
  "cost_other = \<lparr>cost_id = Some 3, cost_kind = EndUserCost 1, cost_bill = 2,
     cost_percentage = Decimal False 10000 (- 2), cost_service_pool = 1,
     cost_cost = Decimal False 500 (- 2), cost_cost_estimate = Decimal False 500 (- 2)\<rparr>"

definition stale_db :: database where
  "stale_db = \<lparr>financialyears = [], bills = [bill_1000], costs = [cost_40, cost_60, cost_other],
     divisions = [], enduserservices = [], enduserservice_divisions = [], platforms = [],
     systemdependencys = []\<rparr>"

definition fresh_db :: database where
  "fresh_db = stale_db\<lparr>bills := [bill_2000],
     costs := [cost_40\<lparr>cost_cost := Decimal False 80000 (- 2),
                      cost_cost_estimate := Decimal False 96000 (- 2)\<rparr>,
               cost_60\<lparr>cost_cost := Decimal False 120000 (- 2),
                      cost_cost_estimate := Decimal False 144000 (- 2)\<rparr>,
               cost_other]\<rparr>"

text \<open>The state after the rows of the active bill of 1000.00 were recomputed.\<close>

definition settled_db :: database where
  "settled_db = stale_db\<lparr>
     costs := [cost_40\<lparr>cost_cost := Decimal False 40000 (- 2),
                      cost_cost_estimate := Decimal False 48000 (- 2)\<rparr>,
               cost_60\<lparr>cost_cost := Decimal False 60000 (- 2),
                      cost_cost_estimate := Decimal False 72000 (- 2)\<rparr>,
               cost_other]\<rparr>"

text \<open>
  Two platforms and two dependencies; the stored count of platform 1 is stale.  A new
  dependency on platform 1, and the state after it was saved.
\<close>

definition platform_db :: database where
  "platform_db = \<lparr>financialyears = [], bills = [], costs = [],
     divisions = [], enduserservices = [], enduserservice_divisions = [],
     platforms = [\<lparr>platform_id = Some 1, platform_system_count = 0\<rparr>,
                  \<lparr>platform_id = Some 2, platform_system_count = 5\<rparr>],
     systemdependencys = [\<lparr>sd_id = Some 1, sd_system = 1, sd_platform = 1\<rparr>,
                          \<lparr>sd_id = Some 2, sd_system = 2, sd_platform = 2\<rparr>]\<rparr>"

definition new_dependency :: SystemDependency where
  "new_dependency = \<lparr>sd_id = None, sd_system = 3, sd_platform = 1\<rparr>"

definition platform_db_after :: database where
  "platform_db_after = platform_db\<lparr>
     platforms := [\<lparr>platform_id = Some 1, platform_system_count = 2\<rparr>,
                   \<lparr>platform_id = Some 2, platform_system_count = 5\<rparr>],
     systemdependencys := [\<lparr>sd_id = Some 1, sd_system = 1, sd_platform = 1\<rparr>,
                           \<lparr>sd_id = Some 2, sd_system = 2, sd_platform = 2\<rparr>,
                           \<lparr>sd_id = Some 3, sd_system = 3, sd_platform = 1\<rparr>]\<rparr>"

text \<open>Two financial years; the table holds the later one first.\<close>

definition two_years_db :: database where
  "two_years_db = \<lparr>
     financialyears = [\<lparr>fy_id = 1, fy_start = (2024, 7, 1), fy_end = (2025, 6, 30)\<rparr>,
                       \<lparr>fy_id = 2, fy_start = (2023, 7, 1), fy_end = (2024, 6, 30)\<rparr>],
     bills = [], costs = [], divisions = [], enduserservices = [],
     enduserservice_divisions = [], platforms = [], systemdependencys = []\<rparr>"

text \<open>The settled state with one financial year, the year of its bill.\<close>

definition year_db :: database where
  "year_db = settled_db\<lparr>financialyears :=
     [\<lparr>fy_id = 1, fy_start = (2024, 7, 1), fy_end = (2025, 6, 30)\<rparr>]\<rparr>"

text \<open>
  Two divisions of 50 and 150 users on one service, whose one cost row is 1000.00
  (estimate 1200.00); the same with no users in either division; and two instances of
  the first division, with 50 users and with none.
\<close>

definition division_db :: database where
  "division_db = \<lparr>financialyears = [], bills = [],
     costs = [\<lparr>cost_id = Some 1, cost_kind = EndUserCost 1, cost_bill = 1,
               cost_percentage = Decimal False 10000 (- 2), cost_service_pool = 1,
               cost_cost = Decimal False 100000 (- 2),
               cost_cost_estimate = Decimal False 120000 (- 2)\<rparr>],
     divisions = [\<lparr>division_id = 1, division_user_count = 50\<rparr>,
                  \<lparr>division_id = 2, division_user_count = 150\<rparr>],
     enduserservices = [\<lparr>service_id = 1\<rparr>],
     enduserservice_divisions = [(1, 1), (1, 2)],
     platforms = [], systemdependencys = []\<rparr>"

definition no_users_db :: database where
  "no_users_db = division_db\<lparr>divisions := [\<lparr>division_id = 1, division_user_count = 0\<rparr>,
                                            \<lparr>division_id = 2, division_user_count = 0\<rparr>]\<rparr>"

definition division_50 :: Division where
  "division_50 = \<lparr>division_id = 1, division_user_count = 50\<rparr>"

definition division_0 :: Division where
  "division_0 = \<lparr>division_id = 1, division_user_count = 0\<rparr>"

text \<open>
  A third row of 60.00 percent for the bill of 1000.00, not yet saved; the row as saved;
  and the state after the save, in which the rows of the bill add up to 160 percent.
\<close>

definition cost_extra :: Cost where
  "cost_extra = \<lparr>cost_id = None, cost_kind = ITPlatformCost 2, cost_bill = 1,
     cost_percentage = Decimal False 6000 (- 2), cost_service_pool = 1,
     cost_cost = Decimal False 0 0, cost_cost_estimate = Decimal False 0 0\<rparr>"

definition cost_extra_saved :: Cost where
  "cost_extra_saved = cost_extra\<lparr>cost_id := Some 4, cost_cost := Decimal False 60000 (- 2),
     cost_cost_estimate := Decimal False 72000 (- 2)\<rparr>"

definition over_db :: database where
  "over_db = stale_db\<lparr>costs := [cost_40, cost_60, cost_other, cost_extra_saved]\<rparr>"

section \<open>Basic lemmas\<close>

lemma bindE_Inl [simp]: "bindE (Inl e) f = Inl e"
  by (simp add: bindE_def)

lemma bindE_Inr [simp]: "bindE (Inr x) f = f x"
  by (simp add: bindE_def)

lemma bindE_eq_Inr: "bindE m f = Inr y \<longleftrightarrow> (\<exists>x. m = Inr x \<and> f x = Inr y)"
  by (cases m) simp_all

text \<open>The equations that evaluate the decimal operations on numerals.\<close>

lemmas dec_eval = Decimal_add_def Decimal_mul_def Decimal_truediv_def Decimal_quantize_def
  Decimal_round_def Decimal_rescale_def Decimal_fix_def Decimal_of_int_def Decimal_eq_def
  Decimal_lt_def aligned_def signed_int_def prec_def round_half_even_def ndigits.simps
  strip_to_ideal.simps numeric_add_def Let_def

lemma Decimal_truediv_100: "Decimal_truediv x (Decimal_of_int 100) = Inr (quotient100 x)"
proof -
  have "\<exists>v. Decimal_truediv x (Decimal_of_int 100) = Inr v"
    by (simp add: Decimal_truediv_def Decimal_of_int_def Let_def split: prod.splits)
  then show ?thesis
    by (auto simp: quotient100_def)
qed

text \<open>
  \<open>Cost.pre_save\<close> computes the same row whether the bill is active or not: the zeros of
  the inactive branch are overwritten.
\<close>

lemma Cost_pre_save_eq:
  "Cost_pre_save db c =
     bindE (Bill_objects_get db (cost_bill c)) (\<lambda>bill. Inr (Cost_derived bill c))"
  by (cases "Bill_objects_get db (cost_bill c)")
     (simp_all add: Cost_pre_save_def Cost_derived_def Decimal_truediv_100 Let_def)

lemma Cost_derived_simps [simp]:
  "cost_id (Cost_derived bill c) = cost_id c"
  "cost_kind (Cost_derived bill c) = cost_kind c"
  "cost_bill (Cost_derived bill c) = cost_bill c"
  "cost_percentage (Cost_derived bill c) = cost_percentage c"
  by (simp_all add: Cost_derived_def)

lemma Cost_derived_idem [simp]: "Cost_derived bill (Cost_derived bill c) = Cost_derived bill c"
  by (simp add: Cost_derived_def)

text \<open>
  The row that is stored differs from the instance in the two derived columns only, and
  deriving it again from the same bill gives the same row.
\<close>

lemma Cost_row_simps [simp]:
  "cost_id (Cost_row c) = cost_id c"
  "cost_kind (Cost_row c) = cost_kind c"
  "cost_bill (Cost_row c) = cost_bill c"
  "cost_percentage (Cost_row c) = cost_percentage c"
  by (simp_all add: Cost_row_def)

lemma Cost_stored_simps [simp]:
  "cost_id (Cost_stored bill c) = cost_id c"
  "cost_kind (Cost_stored bill c) = cost_kind c"
  "cost_bill (Cost_stored bill c) = cost_bill c"
  "cost_percentage (Cost_stored bill c) = cost_percentage c"
  by (simp_all add: Cost_stored_def)

lemma Cost_derived_Cost_row [simp]: "Cost_derived bill (Cost_row c) = Cost_derived bill c"
  by (simp add: Cost_derived_def Cost_row_def)

lemma Cost_stored_idem [simp]: "Cost_stored bill (Cost_stored bill c) = Cost_stored bill c"
  by (simp add: Cost_stored_def)

subsection \<open>The loops of \<open>Bill.post_save\<close>\<close>

lemma Bill_objects_get_bills:
  "bills db' = bills db \<Longrightarrow> Bill_objects_get db' i = Bill_objects_get db i"
  by (simp add: Bill_objects_get_def)

lemma save_table_update:
  "pk inst = Some i \<Longrightarrow> Some i \<in> set (map pk rows) \<Longrightarrow>
   save_table pk set_pk rows inst = (map (\<lambda>r. if pk r = Some i then inst else r) rows, inst)"
  by (simp add: save_table_def)

lemma Cost_save_existing:
  assumes "Bill_objects_get db (cost_bill x) = Inr bill"
    and "cost_id x \<noteq> None" and "cost_id x \<in> set (map cost_id (costs db))"
  shows "Cost_save db x =
     Inr (db\<lparr>costs := map (\<lambda>r. if cost_id r = cost_id x then Cost_stored bill x else r) (costs db)\<rparr>)"
proof -
  from assms(2) obtain k where k: "cost_id x = Some k" by auto
  have "save_table cost_id (\<lambda>i r. r\<lparr>cost_id := Some i\<rparr>) (costs db) (Cost_stored bill x) =
      (map (\<lambda>r. if cost_id r = Some k then Cost_stored bill x else r) (costs db), Cost_stored bill x)"
    using assms(3) k by (intro save_table_update) simp_all
  then show ?thesis
    using assms(1) k by (simp add: Cost_save_def Cost_pre_save_eq Cost_persist_def Cost_stored_def)
qed

lemma for_each_Cost_save:
  assumes "Bill_objects_get db i = Inr bill"
    and "\<forall>x\<in>set xs. cost_bill x = i \<and> cost_id x \<noteq> None \<and> cost_id x \<in> set (map cost_id (costs db))"
    and "distinct (map cost_id xs)"
  shows "for_each Cost_save db xs =
     Inr (db\<lparr>costs := map (\<lambda>r. case find (\<lambda>x. cost_id x = cost_id r) xs of
                                  Some x \<Rightarrow> Cost_stored bill x | None \<Rightarrow> r) (costs db)\<rparr>)"
  using assms
proof (induction xs arbitrary: db)
  case Nil
  then show ?case by simp
next
  case (Cons x xs)
  let ?upd = "\<lambda>r. if cost_id r = cost_id x then Cost_stored bill x else r"
  let ?db1 = "db\<lparr>costs := map ?upd (costs db)\<rparr>"
  have x: "Cost_save db x = Inr ?db1"
    using Cons.prems by (intro Cost_save_existing) simp_all
  have ids: "map cost_id (costs ?db1) = map cost_id (costs db)"
    by simp
  have get1: "Bill_objects_get ?db1 i = Inr bill"
    using Cons.prems(1) by (simp add: Bill_objects_get_def)
  have "for_each Cost_save ?db1 xs =
     Inr (?db1\<lparr>costs := map (\<lambda>r. case find (\<lambda>x. cost_id x = cost_id r) xs of
                                  Some x \<Rightarrow> Cost_stored bill x | None \<Rightarrow> r) (costs ?db1)\<rparr>)"
    using Cons.prems(2,3) get1 unfolding ids[symmetric]
    by (intro Cons.IH) (simp_all del: ids)
  moreover have "find (\<lambda>y. cost_id y = cost_id x) xs = None"
  proof -
    have "cost_id x \<notin> cost_id ` set xs"
      using Cons.prems(3) by simp
    then have "\<not> (\<exists>y. y \<in> set xs \<and> cost_id y = cost_id x)"
      by (metis imageI)
    then show ?thesis
      by (simp add: find_None_iff)
  qed
  ultimately show ?case
    using x by (simp add: comp_def cong: if_cong)
qed

lemma find_filter_distinct:
  assumes "distinct (map pk rows)" and "r \<in> set rows"
  shows "find (\<lambda>x. pk x = pk r) (filter Q rows) = (if Q r then Some r else None)"
  using assms
proof (induction rows)
  case Nil
  then show ?case by simp
next
  case (Cons a rows)
  show ?case
  proof (cases "r = a")
    case True
    have "\<not> (\<exists>y. y \<in> set (filter Q rows) \<and> pk y = pk a)"
      using Cons.prems(1) by (auto simp: image_iff)
    then have "find (\<lambda>x. pk x = pk a) (filter Q rows) = None"
      by (simp add: find_None_iff)
    then show ?thesis
      using True by simp
  next
    case False
    then have r: "r \<in> set rows"
      using Cons.prems(2) by simp
    then have "pk a \<noteq> pk r"
      using Cons.prems(1) by (auto simp: image_iff)
    then show ?thesis
      using Cons.IH r Cons.prems(1) by simp
  qed
qed

lemma map_find_filter:
  assumes "distinct (map pk rows)"
  shows "map (\<lambda>r. case find (\<lambda>x. pk x = pk r) (filter Q rows) of Some x \<Rightarrow> f x | None \<Rightarrow> r) rows =
         map (\<lambda>r. if Q r then f r else r) rows"
  by (rule map_cong[OF refl]) (simp add: find_filter_distinct[OF assms])

lemma for_each_Cost_save_filter:
  assumes "Bill_objects_get db i = Inr bill"
    and "keys_ok (map cost_id (costs db))"
    and "\<And>c. Q c \<Longrightarrow> cost_bill c = i"
  shows "for_each Cost_save db (filter Q (costs db)) =
         Inr (db\<lparr>costs := cascade_rows Q bill (costs db)\<rparr>)"
proof -
  have d: "distinct (map cost_id (costs db))" and n: "None \<notin> set (map cost_id (costs db))"
    using assms(2) by (simp_all add: keys_ok_def)
  have "\<forall>x\<in>set (filter Q (costs db)).
          cost_bill x = i \<and> cost_id x \<noteq> None \<and> cost_id x \<in> set (map cost_id (costs db))"
  proof
    fix x assume "x \<in> set (filter Q (costs db))"
    then have x: "x \<in> set (costs db)" and q: "Q x"
      by simp_all
    from x have "cost_id x \<in> set (map cost_id (costs db))"
      by simp
    moreover from this n have "cost_id x \<noteq> None"
      by metis
    ultimately show "cost_bill x = i \<and> cost_id x \<noteq> None \<and> cost_id x \<in> set (map cost_id (costs db))"
      using assms(3)[OF q] by blast
  qed
  moreover have "distinct (map cost_id (filter Q (costs db)))"
    using d by (rule distinct_map_filter)
  ultimately show ?thesis
    using assms(1) by (simp add: for_each_Cost_save map_find_filter[OF d] cascade_rows_def)
qed

lemma for_each_Cost_save_no_bill:
  assumes "Bill_objects_get db i = Inl e" and "\<forall>x\<in>set xs. cost_bill x = i"
  shows "for_each Cost_save db xs = (if xs = [] then Inr db else Inl e)"
  using assms by (cases xs) (simp_all add: Cost_save_def Cost_pre_save_eq)

lemma dependent_kinds:
  "dependent b c \<longleftrightarrow>
     (is_EndUserCost (cost_kind c) \<and> Some (cost_bill c) = bill_id b) \<or>
     (is_ITPlatformCost (cost_kind c) \<and> Some (cost_bill c) = bill_id b)"
  by (cases "cost_kind c") (auto simp: dependent_def)

lemma kinds_disjoint: "is_EndUserCost k \<Longrightarrow> \<not> is_ITPlatformCost k"
  by (cases k) simp_all

lemma cascade_rows_ids [simp]: "map cost_id (cascade_rows Q bill rows) = map cost_id rows"
  by (simp add: cascade_rows_def)

lemma Bill_post_save_found:
  assumes "bill_id b = Some i" and "Bill_objects_get db i = Inr bill"
    and "keys_ok (map cost_id (costs db))"
  shows "Bill_post_save db b = Inr (db\<lparr>costs := cascade_rows (dependent b) bill (costs db)\<rparr>)"
proof -
  let ?Q1 = "\<lambda>c. is_EndUserCost (cost_kind c) \<and> Some (cost_bill c) = bill_id b"
  let ?Q2 = "\<lambda>c. is_ITPlatformCost (cost_kind c) \<and> Some (cost_bill c) = bill_id b"
  let ?db1 = "db\<lparr>costs := cascade_rows ?Q1 bill (costs db)\<rparr>"
  have 1: "for_each Cost_save db (filter ?Q1 (costs db)) = Inr ?db1"
    using assms by (intro for_each_Cost_save_filter) auto
  have get1: "Bill_objects_get ?db1 i = Inr bill"
    using assms(2) by (simp add: Bill_objects_get_def)
  have keys1: "keys_ok (map cost_id (costs ?db1))"
    using assms(3) by simp
  have 2: "for_each Cost_save ?db1 (filter ?Q2 (costs ?db1)) =
      Inr (?db1\<lparr>costs := cascade_rows ?Q2 bill (costs ?db1)\<rparr>)"
    using get1 keys1 assms(1) by (intro for_each_Cost_save_filter) auto
  have "cascade_rows ?Q2 bill (cascade_rows ?Q1 bill (costs db)) =
      cascade_rows (dependent b) bill (costs db)"
    by (auto simp: cascade_rows_def dependent_kinds kinds_disjoint)
  then show ?thesis
    using 1 2
    by (simp add: Bill_post_save_def EndUserCost_objects_filter_bill_def
        ITPlatformCost_objects_filter_bill_def)
qed

lemma Bill_post_save_not_found:
  assumes "\<not> (\<exists>i bill. bill_id b = Some i \<and> Bill_objects_get db i = Inr bill)"
    and "Bill_post_save db b = Inr db1"
  shows "db1 = db"
proof (cases "bill_id b")
  case None
  then show ?thesis
    using assms(2)
    by (simp add: Bill_post_save_def EndUserCost_objects_filter_bill_def
        ITPlatformCost_objects_filter_bill_def)
next
  case (Some i)
  then obtain e where e: "Bill_objects_get db i = Inl e"
    using assms(1) by (cases "Bill_objects_get db i") auto
  let ?xs = "EndUserCost_objects_filter_bill db b"
  have 1: "for_each Cost_save db ?xs = (if ?xs = [] then Inr db else Inl e)"
    using Some by (intro for_each_Cost_save_no_bill[OF e])
      (auto simp: EndUserCost_objects_filter_bill_def)
  let ?ys = "ITPlatformCost_objects_filter_bill db b"
  have 2: "for_each Cost_save db ?ys = (if ?ys = [] then Inr db else Inl e)"
    using Some by (intro for_each_Cost_save_no_bill[OF e])
      (auto simp: ITPlatformCost_objects_filter_bill_def)
  show ?thesis
    using assms(2) 1 2 by (auto simp: Bill_post_save_def split: if_splits)
qed

lemma cascade_rows_idem [simp]:
  "cascade_rows (dependent b) bill (cascade_rows (dependent b) bill rows) =
   cascade_rows (dependent b) bill rows"
  by (simp add: cascade_rows_def dependent_def)

lemma Bill_post_save_idem:
  assumes "keys_ok (map cost_id (costs db))" and "Bill_post_save db b = Inr db1"
  shows "Bill_post_save db1 b = Inr db1"
proof (cases "\<exists>i bill. bill_id b = Some i \<and> Bill_objects_get db i = Inr bill")
  case True
  then obtain i bill where i: "bill_id b = Some i" and g: "Bill_objects_get db i = Inr bill"
    by blast
  have db1: "db1 = db\<lparr>costs := cascade_rows (dependent b) bill (costs db)\<rparr>"
    using Bill_post_save_found[OF i g assms(1)] assms(2) by simp
  have "Bill_objects_get db1 i = Inr bill"
    using g by (simp add: db1 Bill_objects_get_def)
  moreover have "keys_ok (map cost_id (costs db1))"
    using assms(1) by (simp add: db1)
  ultimately have "Bill_post_save db1 b =
      Inr (db1\<lparr>costs := cascade_rows (dependent b) bill (costs db1)\<rparr>)"
    by (rule Bill_post_save_found[OF i])
  then show ?thesis
    by (simp add: db1)
next
  case False
  then have "db1 = db"
    using assms(2) by (rule Bill_post_save_not_found)
  then show ?thesis
    using assms(2) by simp
qed

lemma Cost_pre_save_idem:
  assumes "Cost_pre_save db c = Inr c'"
  shows "Cost_pre_save db c' = Inr c'"
proof -
  from assms obtain bill where "Bill_objects_get db (cost_bill c) = Inr bill"
    and "c' = Cost_derived bill c"
    by (auto simp: Cost_pre_save_eq bindE_eq_Inr)
  then show ?thesis
    by (simp add: Cost_pre_save_eq)
qed

subsection \<open>Persistence\<close>

lemma fold_max_ge: "n \<in> set ns \<Longrightarrow> n \<le> fold max ns (a::nat)"
proof (induction ns arbitrary: a)
  case Nil
  then show ?case by simp
next
  case (Cons m ns)
  have mono: "a \<le> fold max ns a" for a :: nat
  proof (induction ns arbitrary: a)
    case Nil
    show ?case by simp
  next
    case (Cons k ks)
    have "a \<le> max k a" by simp
    also have "\<dots> \<le> fold max ks (max k a)" by (rule Cons.IH)
    finally show ?case by simp
  qed
  show ?case
  proof (cases "n = m")
    case True
    have "m \<le> max m a" by simp
    also have "\<dots> \<le> fold max ns (max m a)" by (rule mono)
    finally show ?thesis using True by simp
  next
    case False
    then show ?thesis using Cons by simp
  qed
qed

lemma fresh_pk_fresh: "Some (fresh_pk pks) \<notin> set pks"
proof
  assume "Some (fresh_pk pks) \<in> set pks"
  then have "fresh_pk pks \<in> set (List.map_filter id pks)"
    by (force simp: map_filter_def)
  then have "fresh_pk pks \<le> fold max (List.map_filter id pks) 0"
    by (rule fold_max_ge)
  then show False
    by (simp add: fresh_pk_def)
qed

lemma find_update:
  "Some i \<in> set (map pk rows) \<Longrightarrow> pk inst = Some i \<Longrightarrow>
   find (\<lambda>r. pk r = Some i) (map (\<lambda>r. if pk r = Some i then inst else r) rows) = Some inst"
  by (induction rows) auto

lemma find_append_new:
  "Some i \<notin> set (map pk rows) \<Longrightarrow> pk inst = Some i \<Longrightarrow>
   find (\<lambda>r. pk r = Some i) (rows @ [inst]) = Some inst"
  by (induction rows) auto

lemma save_table_find:
  assumes "save_table pk set_pk rows inst = (rows', inst')"
    and "\<And>i r. pk (set_pk i r) = Some i"
  shows "\<exists>i. pk inst' = Some i \<and> find (\<lambda>r. pk r = Some i) rows' = Some inst'"
proof (cases "pk inst")
  case None
  let ?k = "fresh_pk (map pk rows)"
  have "inst' = set_pk ?k inst" and "rows' = rows @ [set_pk ?k inst]"
    using assms(1) None by (auto simp: save_table_def Let_def)
  moreover have "Some ?k \<notin> set (map pk rows)"
    by (rule fresh_pk_fresh)
  ultimately show ?thesis
    using assms(2) find_append_new[of ?k pk rows "set_pk ?k inst"] by auto
next
  case (Some i)
  show ?thesis
  proof (cases "Some i \<in> set (map pk rows)")
    case True
    then have "inst' = inst" and "rows' = map (\<lambda>r. if pk r = Some i then inst else r) rows"
      using assms(1) Some by (auto simp: save_table_def)
    then show ?thesis
      using Some True find_update[of i pk rows inst] by auto
  next
    case False
    then have "inst' = inst" and "rows' = rows @ [inst]"
      using assms(1) Some by (auto simp: save_table_def)
    then show ?thesis
      using Some False find_append_new[of i pk rows inst] by auto
  qed
qed

lemma save_table_fields:
  assumes "save_table pk set_pk rows inst = (rows', inst')"
  shows "inst' = inst \<or> (\<exists>k. pk inst = None \<and> inst' = set_pk k inst)"
  using assms by (auto simp: save_table_def Let_def split: option.splits if_splits)

lemma Bill_persist_get:
  assumes "Bill_persist db b = (db1, b')"
  shows "\<exists>i. bill_id b' = Some i \<and> Bill_objects_get db1 i = Inr b'"
    and "costs db1 = costs db"
    and "b' = b\<lparr>bill_id := bill_id b'\<rparr>"
proof -
  obtain rows where st: "save_table bill_id (\<lambda>i r. r\<lparr>bill_id := Some i\<rparr>) (bills db) b = (rows, b')"
    and db1: "db1 = db\<lparr>bills := rows\<rparr>"
    using assms by (auto simp: Bill_persist_def split: prod.splits)
  from save_table_find[OF st]
  obtain i where "bill_id b' = Some i" and "find (\<lambda>r. bill_id r = Some i) rows = Some b'"
    by auto
  then show "\<exists>i. bill_id b' = Some i \<and> Bill_objects_get db1 i = Inr b'"
    by (auto simp: Bill_objects_get_def db1)
  show "costs db1 = costs db"
    by (simp add: db1)
  show "b' = b\<lparr>bill_id := bill_id b'\<rparr>"
    using save_table_fields[OF st] by auto
qed

lemma save_Bill:
  "save db (BillInstance b) =
     (case Bill_persist db b of (db1, b') \<Rightarrow>
        bindE (Bill_post_save db1 b') (\<lambda>db2. Inr (db2, BillInstance b')))"
  by (simp add: save_def save_base_def pre_save_hook_def persist_def post_save_hook_def
      split: prod.splits)

lemma save_Cost: "map_sum id fst (save db (CostInstance c)) = Cost_save db c"
  by (cases "Cost_pre_save db c")
     (simp_all add: save_def save_base_def pre_save_hook_def persist_def post_save_hook_def
        Cost_save_def split: prod.splits)

lemma save_Platform: "map_sum id fst (save db (PlatformInstance p)) = Platform_save db p"
  by (simp add: save_def save_base_def pre_save_hook_def persist_def post_save_hook_def
        Platform_save_def split: prod.splits)

subsection \<open>\<open>SystemDependency.post_save\<close>\<close>

lemma find_Some_pk: "find P xs = Some x \<Longrightarrow> P x \<and> x \<in> set xs"
  by (induction xs) (auto split: if_splits)

lemma Platform_objects_get_id:
  "Platform_objects_get db i = Inr p \<Longrightarrow> platform_id p = Some i \<and> p \<in> set (platforms db)"
  by (auto simp: Platform_objects_get_def split: option.splits dest: find_Some_pk)

lemma Platform_save_existing:
  assumes "Platform_objects_get db i = Inr p"
  shows "\<exists>db'. Platform_save db (p\<lparr>platform_system_count := n\<rparr>) = Inr db' \<and>
           Platform_objects_get db' i = Inr (p\<lparr>platform_system_count := n\<rparr>) \<and>
           systemdependencys db' = systemdependencys db"
proof -
  let ?p = "p\<lparr>platform_system_count := n\<rparr>"
  from Platform_objects_get_id[OF assms] have id: "platform_id ?p = Some i"
    and mem: "Some i \<in> set (map platform_id (platforms db))"
    by (auto simp: image_iff intro: bexI[of _ p])
  have st: "save_table platform_id (\<lambda>i r. r\<lparr>platform_id := Some i\<rparr>) (platforms db) ?p =
      (map (\<lambda>r. if platform_id r = Some i then ?p else r) (platforms db), ?p)"
    using id mem by (rule save_table_update)
  have "find (\<lambda>r. platform_id r = Some i)
      (map (\<lambda>r. if platform_id r = Some i then ?p else r) (platforms db)) = Some ?p"
    using mem id by (rule find_update)
  then show ?thesis
    using st by (simp add: Platform_save_def Platform_persist_def Platform_objects_get_def)
qed

lemma SystemDependency_persist_platform:
  assumes "SystemDependency_persist db sd = Inr (db1, sd')"
  shows "sd_platform sd' = sd_platform sd"
proof -
  obtain rows where st: "save_table sd_id (\<lambda>i r. r\<lparr>sd_id := Some i\<rparr>) (systemdependencys db) sd
      = (rows, sd')"
    using assms by (auto simp: SystemDependency_persist_def split: if_splits prod.splits)
  from save_table_fields[OF st] show ?thesis
    by auto
qed

lemma save_SystemDependency:
  "save db (SystemDependencyInstance sd) =
     bindE (SystemDependency_persist db sd) (\<lambda>(db1, sd').
       bindE (SystemDependency_post_save db1 sd')
         (\<lambda>db2. Inr (db2, SystemDependencyInstance sd')))"
  by (cases "SystemDependency_persist db sd")
     (simp_all add: save_def save_base_def pre_save_hook_def persist_def post_save_hook_def
        split: prod.splits)

subsection \<open>The first row under an ordering\<close>

lemma sort_key_hd_min:
  assumes "sort_key f xs = y # ys"
  shows "y \<in> set xs \<and> (\<forall>x\<in>set xs. f y \<le> f x)"
proof -
  have s: "set (y # ys) = set xs"
    using assms by (metis set_sort)
  have "sorted (map f (y # ys))"
    using assms by (metis sorted_sort_key)
  then have "\<forall>x\<in>set (y # ys). f y \<le> f x"
    by auto
  then show ?thesis
    using s by auto
qed

subsection \<open>The value of a decimal\<close>

lemma signed_int_zero_iff: "signed_int d = 0 \<longleftrightarrow> dec_int d = 0"
  by (simp add: signed_int_def)

lemma Decimal_val_zero_iff: "Decimal_val d = 0 \<longleftrightarrow> dec_int d = 0"
  by (simp add: Decimal_val_def signed_int_zero_iff)

lemma aligned_val:
  assumes "e \<le> dec_exp d"
  shows "of_int (aligned d e) * 10 powi e = Decimal_val d"
proof -
  have "(10::rat) ^ nat (dec_exp d - e) = 10 powi (dec_exp d - e)"
    using assms by (simp add: power_int_def)
  moreover have "(10::rat) powi (dec_exp d - e) * 10 powi e = 10 powi dec_exp d"
    by (simp add: power_int_add[symmetric])
  ultimately show ?thesis
    by (simp add: aligned_def Decimal_val_def mult.assoc)
qed

lemma Decimal_val_of_int [simp]: "Decimal_val (Decimal_of_int n) = of_int n"
  by (simp add: Decimal_val_def Decimal_of_int_def signed_int_def)

lemma Decimal_eq_val: "Decimal_eq a b \<longleftrightarrow> Decimal_val a = Decimal_val b"
proof -
  let ?e = "min (dec_exp a) (dec_exp b)"
  have a: "of_int (aligned a ?e) * 10 powi ?e = Decimal_val a"
    and b: "of_int (aligned b ?e) * 10 powi ?e = Decimal_val b"
    by (rule aligned_val, simp)+
  have "Decimal_val a = Decimal_val b \<longleftrightarrow> (of_int (aligned a ?e) :: rat) = of_int (aligned b ?e)"
    unfolding a[symmetric] b[symmetric] by simp
  then show ?thesis
    by (simp add: Decimal_eq_def Let_def)
qed

lemma Decimal_lt_val: "Decimal_lt a b \<longleftrightarrow> Decimal_val a < Decimal_val b"
proof -
  let ?e = "min (dec_exp a) (dec_exp b)"
  have a: "of_int (aligned a ?e) * 10 powi ?e = Decimal_val a"
    and b: "of_int (aligned b ?e) * 10 powi ?e = Decimal_val b"
    by (rule aligned_val, simp)+
  have pos: "(0::rat) < 10 powi ?e"
    by (simp add: zero_less_power_int)
  have "Decimal_val a < Decimal_val b \<longleftrightarrow> (of_int (aligned a ?e) :: rat) < of_int (aligned b ?e)"
    unfolding a[symmetric] b[symmetric] using pos by (simp add: mult_less_cancel_right_pos)
  then show ?thesis
    by (simp add: Decimal_lt_def Let_def)
qed

lemma Decimal_val_numeric_add: "Decimal_val (numeric_add a b) = Decimal_val a + Decimal_val b"
proof -
  let ?e = "min (dec_exp a) (dec_exp b)"
  let ?s = "aligned a ?e + aligned b ?e"
  have a: "of_int (aligned a ?e) * 10 powi ?e = Decimal_val a"
    and b: "of_int (aligned b ?e) * 10 powi ?e = Decimal_val b"
    by (rule aligned_val, simp)+
  have "signed_int (Decimal (?s < 0) (nat \<bar>?s\<bar>) ?e) = ?s"
    by (simp add: signed_int_def)
  then have "Decimal_val (numeric_add a b) = of_int ?s * 10 powi ?e"
    by (simp add: numeric_add_def Let_def Decimal_val_def)
  also have "\<dots> = Decimal_val a + Decimal_val b"
    unfolding a[symmetric] b[symmetric] by (simp add: distrib_right)
  finally show ?thesis .
qed

lemma Decimal_truediv_nonzero:
  "dec_int b \<noteq> 0 \<Longrightarrow> \<exists>q. Decimal_truediv a b = Inr q"
  by (simp add: Decimal_truediv_def Let_def split: prod.splits)

lemma call_cost_FinancialYear [simp]:
  "call_cost db (AFinancialYear i) = Inr (CostSummary_cost db (AFinancialYear i))"
  "call_cost_estimate db (AFinancialYear i) = Inr (CostSummary_cost_estimate db (AFinancialYear i))"
  by (simp_all add: call_cost_def call_cost_estimate_def)

subsection \<open>The loop of \<open>Division.enduser_cost\<close>\<close>

lemma for_each_sum_shares:
  "for_each (\<lambda>total x. bindE (g x) (\<lambda>r. Inr (Decimal_add total r))) acc xs =
   sum_shares acc (map g xs)"
proof (induction xs arbitrary: acc)
  case Nil
  show ?case by simp
next
  case (Cons x xs)
  show ?case
    by (cases "g x") (simp_all add: Cons.IH)
qed

lemma bindE_assoc: "bindE (bindE m f) g = bindE m (\<lambda>x. bindE (f x) g)"
  by (cases m) simp_all

lemma Division_enduser_cost_shares:
  "Division_enduser_cost db d =
     sum_shares (Decimal_of_int 0)
       (map (\<lambda>s. Division_share db d (service_id s)) (Division_enduserservice_set db d))"
proof -
  have "Division_enduser_cost db d =
      for_each (\<lambda>total x. bindE ((\<lambda>s. Division_share db d (service_id s)) x)
                  (\<lambda>r. Inr (Decimal_add total r)))
        (Decimal_of_int 0) (Division_enduserservice_set db d)"
    by (simp add: Division_enduser_cost_def Division_share_def bindE_assoc)
  also have "\<dots> = sum_shares (Decimal_of_int 0)
       (map (\<lambda>s. Division_share db d (service_id s)) (Division_enduserservice_set db d))"
    by (rule for_each_sum_shares)
  finally show ?thesis .
qed

lemma Division_enduser_estimate_shares:
  "Division_enduser_estimate db d =
     sum_shares (Decimal_of_int 0)
       (map (\<lambda>s. Division_share_estimate db d (service_id s)) (Division_enduserservice_set db d))"
proof -
  have "Division_enduser_estimate db d =
      for_each (\<lambda>total x. bindE ((\<lambda>s. Division_share_estimate db d (service_id s)) x)
                  (\<lambda>r. Inr (Decimal_add total r)))
        (Decimal_of_int 0) (Division_enduserservice_set db d)"
    by (simp add: Division_enduser_estimate_def Division_share_estimate_def bindE_assoc)
  also have "\<dots> = sum_shares (Decimal_of_int 0)
       (map (\<lambda>s. Division_share_estimate db d (service_id s)) (Division_enduserservice_set db d))"
    by (rule for_each_sum_shares)
  finally show ?thesis .
qed



lemma Decimal_truediv_errors:
  "Decimal_truediv a b = Inl e \<Longrightarrow> e = DivisionByZero \<or> e = InvalidOperation"
  by (auto simp: Decimal_truediv_def Let_def split: if_splits prod.splits)

lemma Decimal_round_errors: "Decimal_round a n = Inl e \<Longrightarrow> e = InvalidOperation"
  by (auto simp: Decimal_round_def Decimal_quantize_def Let_def split: if_splits)

lemma Division_share_errors:
  "Division_share db d s = Inl e \<Longrightarrow> e = DivisionByZero \<or> e = InvalidOperation"
  "Division_share_estimate db d s = Inl e \<Longrightarrow> e = DivisionByZero \<or> e = InvalidOperation"
  by (auto simp: Division_share_def Division_share_estimate_def bindE_def
      split: sum.splits dest: Decimal_truediv_errors Decimal_round_errors)

lemma Decimal_truediv_zero:
  "dec_int b = 0 \<Longrightarrow>
   Decimal_truediv a b = (if dec_int a = 0 then Inl InvalidOperation else Inl DivisionByZero)"
  by (simp add: Decimal_truediv_def)

lemma Division_share_zero_total:
  assumes "number_val (EndUserService_total_user_count db s) = 0"
  shows "Division_share db d s =
           (if division_user_count d = 0 then Inl InvalidOperation else Inl DivisionByZero)"
    and "Division_share_estimate db d s =
           (if division_user_count d = 0 then Inl InvalidOperation else Inl DivisionByZero)"
proof -
  have "dec_int (Decimal_new (EndUserService_total_user_count db s)) = 0"
    using assms by (simp add: number_val_def Decimal_val_zero_iff)
  then show "Division_share db d s =
           (if division_user_count d = 0 then Inl InvalidOperation else Inl DivisionByZero)"
    and "Division_share_estimate db d s =
           (if division_user_count d = 0 then Inl InvalidOperation else Inl DivisionByZero)"
    by (simp_all add: Division_share_def Division_share_estimate_def Decimal_truediv_zero
        Decimal_of_int_def)
qed

lemma sum_shares_error:
  assumes "Inl e \<in> set rs"
    and "\<And>e'. Inl e' \<in> set rs \<Longrightarrow> e' = DivisionByZero \<or> e' = InvalidOperation"
  shows "sum_shares acc rs = Inl DivisionByZero \<or> sum_shares acc rs = Inl InvalidOperation"
  using assms
proof (induction rs arbitrary: acc)
  case Nil
  then show ?case by simp
next
  case (Cons r rs)
  show ?case
  proof (cases r)
    case (Inl e')
    then show ?thesis
      using Cons.prems(2)[of e'] by auto
  next
    case (Inr x)
    then have "Inl e \<in> set rs"
      using Cons.prems(1) by auto
    then show ?thesis
      using Cons.IH[of "Decimal_add acc x"] Cons.prems(2) Inr by auto
  qed
qed

subsection \<open>Sums of a column and the allocation filter\<close>

lemma foldl_numeric_add_val:
  "Decimal_val (foldl numeric_add x xs) = Decimal_val x + sum_list (map Decimal_val xs)"
  by (induction xs arbitrary: x) (simp_all add: Decimal_val_numeric_add)

lemma aggregate_Sum_val:
  "aggregate_Sum xs = Some s \<Longrightarrow> Decimal_val s = sum_list (map Decimal_val xs)"
  by (cases xs) (auto simp: foldl_numeric_add_val)

lemma aggregate_Sum_None: "aggregate_Sum xs = None \<longleftrightarrow> xs = []"
  by (cases xs) simp_all

lemma field_sum_val: "Decimal_val (field_sum xs) = sum_list (map Decimal_val xs)"
proof (cases "aggregate_Sum xs")
  case None
  then show ?thesis
    by (simp add: field_sum_def aggregate_Sum_None)
next
  case (Some s)
  have v: "Decimal_val s = sum_list (map Decimal_val xs)"
    using Some by (rule aggregate_Sum_val)
  show ?thesis
  proof (cases "dec_int s = 0")
    case True
    then have "Decimal_val s = 0"
      by (simp add: Decimal_val_zero_iff)
    then show ?thesis
      using Some True v by (simp add: field_sum_def)
  next
    case False
    then show ?thesis
      using Some v by (simp add: field_sum_def)
  qed
qed

lemma Bill_allocated_val:
  "number_val (Bill_allocated db b) =
     sum_list (map (\<lambda>c. Decimal_val (cost_percentage c)) (Bill_cost_items db b))"
proof -
  let ?s = "field_sum (map cost_percentage (Bill_cost_items db b))"
  have "number_val (Bill_allocated db b) = Decimal_val ?s"
    by (simp add: Bill_allocated_def Let_def number_val_def Decimal_val_zero_iff)
  then show ?thesis
    by (simp add: field_sum_val comp_def)
qed

lemma sum_list_nonneg_zero_iff:
  fixes xs :: "rat list"
  assumes "\<forall>x\<in>set xs. 0 \<le> x"
  shows "sum_list xs = 0 \<longleftrightarrow> (\<forall>x\<in>set xs. \<not> 0 < x)"
  using assms
proof (induction xs)
  case Nil
  then show ?case by simp
next
  case (Cons x xs)
  then have "0 \<le> x" and "0 \<le> sum_list xs"
    by (simp_all add: sum_list_nonneg)
  then have "x + sum_list xs = 0 \<longleftrightarrow> x = 0 \<and> sum_list xs = 0"
    by linarith
  then show ?case
    using Cons by auto
qed

lemma in_AllocatedListFilter_queryset:
  assumes "b \<in> set qs"
    and "\<forall>c\<in>set (Bill_cost_items db b). 0 \<le> Decimal_val (cost_percentage c)"
  defines "S \<equiv> number_val (Bill_allocated db b)"
  shows "(case AllocatedListFilter_queryset db v qs of Some bs \<Rightarrow> b \<in> set bs | None \<Rightarrow> False) =
         (v = ''0'' \<and> S = 0 \<or> v = ''lt_100'' \<and> 0 < S \<and> S < 100 \<or>
          v = ''100'' \<and> S = 100 \<or> v = ''gt_100'' \<and> 100 < S)"
proof -
  let ?ps = "map (\<lambda>c. Decimal_val (cost_percentage c)) (Bill_cost_items db b)"
  have S: "S = sum_list ?ps"
    by (simp add: S_def Bill_allocated_val)
  have zero: "(\<not> list_ex (\<lambda>c. Decimal_lt (Decimal_of_int 0) (cost_percentage c))
      (Bill_cost_items db b)) = (S = 0)"
    using sum_list_nonneg_zero_iff[of ?ps] assms(2)
    by (simp add: S list_ex_iff Decimal_lt_val)
  have sum: "cost_items__percentage__sum db b = Some s \<Longrightarrow> Decimal_val s = S" for s
    by (simp add: cost_items__percentage__sum_def S aggregate_Sum_val comp_def)
  have none: "cost_items__percentage__sum db b = None \<Longrightarrow> S = 0"
    by (simp add: cost_items__percentage__sum_def S aggregate_Sum_None)
  show ?thesis
    using assms(1) zero sum none
    by (cases "cost_items__percentage__sum db b")
       (auto simp: AllocatedListFilter_queryset_def Decimal_lt_val Decimal_eq_val)
qed

lemma save_Cost_succeeds:
  assumes "Bill_objects_get db (cost_bill c) = Inr bill"
  shows "\<exists>db' c'. save db (CostInstance c) = Inr (db', CostInstance c') \<and> c' \<in> set (costs db')"
proof -
  obtain rows c' where st: "save_table cost_id (\<lambda>i r. r\<lparr>cost_id := Some i\<rparr>) (costs db)
      (Cost_stored bill c) = (rows, c')"
    by (cases "save_table cost_id (\<lambda>i r. r\<lparr>cost_id := Some i\<rparr>) (costs db) (Cost_stored bill c)")
  from save_table_find[OF st] have "c' \<in> set rows"
    by (auto dest: find_Some_pk)
  moreover have "save db (CostInstance c) = Inr (db\<lparr>costs := rows\<rparr>, CostInstance c')"
    using assms st
    by (simp add: save_def save_base_def pre_save_hook_def persist_def post_save_hook_def
        Cost_pre_save_eq Cost_persist_def Cost_stored_def)
  ultimately show ?thesis
    by auto
qed

text \<open>
  A save of a bill, over sound primary keys, saves every \<open>EndUserCost\<close> and
  \<open>ITPlatformCost\<close> row of the bill again: each holds what \<open>Cost.pre_save\<close> derives from the
  bill as saved, at the scale of its columns.
\<close>

lemma Bill_save_cascade:
  assumes "primary_keys_ok db" and "save db (BillInstance b) = Inr (db', inst)"
  shows "\<exists>b' i. inst = BillInstance b' \<and> b' = b\<lparr>bill_id := Some i\<rparr> \<and>
           Bill_objects_get db' i = Inr b' \<and>
           (\<forall>c\<in>set (costs db').
              cost_bill c = i \<and> cost_kind c \<noteq> PlainCost \<longrightarrow> c = Cost_stored b' c)"
proof -
  obtain db1 b' where p: "Bill_persist db b = (db1, b')"
    by (cases "Bill_persist db b")
  from Bill_persist_get[OF p] obtain i where i: "bill_id b' = Some i"
    and g: "Bill_objects_get db1 i = Inr b'" and c1: "costs db1 = costs db"
    and b': "b' = b\<lparr>bill_id := bill_id b'\<rparr>"
    by auto
  have keys: "keys_ok (map cost_id (costs db1))"
    using assms(1) c1 by (simp add: primary_keys_ok_def)
  have ps: "Bill_post_save db1 b' = Inr (db1\<lparr>costs := cascade_rows (dependent b') b' (costs db1)\<rparr>)"
    by (rule Bill_post_save_found[OF i g keys])
  have db': "db' = db1\<lparr>costs := cascade_rows (dependent b') b' (costs db1)\<rparr>"
    and inst: "inst = BillInstance b'"
    using assms(2) p ps by (simp_all add: save_Bill)
  have g': "Bill_objects_get db' i = Inr b'"
    using g by (simp add: db' Bill_objects_get_def)
  have rows: "\<forall>c\<in>set (costs db'). cost_bill c = i \<and> cost_kind c \<noteq> PlainCost \<longrightarrow>
      c = Cost_stored b' c"
  proof (intro ballI impI)
    fix c assume "c \<in> set (costs db')" and d: "cost_bill c = i \<and> cost_kind c \<noteq> PlainCost"
    then have "c \<in> (\<lambda>r. if dependent b' r then Cost_stored b' r else r) ` set (costs db1)"
      by (simp add: db' cascade_rows_def)
    then obtain r where c: "c = (if dependent b' r then Cost_stored b' r else r)"
      by (rule imageE)
    show "c = Cost_stored b' c"
    proof (cases "dependent b' r")
      case True
      then show ?thesis by (simp add: c)
    next
      case False
      then have "c = r" by (simp add: c)
      then have "dependent b' r" using d i by (simp add: dependent_def)
      with False show ?thesis by simp
    qed
  qed
  moreover have "b' = b\<lparr>bill_id := Some i\<rparr>"
    using b' i by simp
  ultimately show ?thesis
    using inst g' by blast
qed

subsection \<open>Evaluation of the example states\<close>

lemmas db_eval = save_def save_base_def pre_save_hook_def post_save_hook_def persist_def
  Bill_persist_def Cost_persist_def Cost_row_def adapt_decimalfield_value_def
  Platform_persist_def SystemDependency_persist_def save_table_def fresh_pk_def List.map_filter_def
  Bill_post_save_def EndUserCost_objects_filter_bill_def ITPlatformCost_objects_filter_bill_def
  Cost_save_def Cost_pre_save_def Bill_objects_get_def Platform_objects_get_def
  Platform_save_def SystemDependency_post_save_def primary_keys_ok_def keys_ok_def Let_def

text \<open>A value of six places, and a whole number, at the scale of a two-place column.\<close>

lemma adapt_decimalfield_value_example:
  "adapt_decimalfield_value 2 (Decimal False 3336333 (- 6)) = Decimal False 334 (- 2)"
  "adapt_decimalfield_value 2 (Decimal False 5 0) = Decimal False 500 (- 2)"
  "adapt_decimalfield_value 2 (Decimal False 5 (- 3)) = Decimal False 0 (- 2)"
  "adapt_decimalfield_value 2 (Decimal False 15 (- 3)) = Decimal False 2 (- 2)"
  by (simp_all add: adapt_decimalfield_value_def dec_eval)

lemma stale_db_keys: "primary_keys_ok stale_db"
  by (simp add: db_eval stale_db_def bill_1000_def cost_40_def cost_60_def cost_other_def)

lemma save_bill_2000: "save stale_db (BillInstance bill_2000) = Inr (fresh_db, BillInstance bill_2000)"
  by (simp add: db_eval dec_eval stale_db_def fresh_db_def bill_1000_def bill_2000_def
      cost_40_def cost_60_def cost_other_def)

lemma pre_save_cost_60:
  "Cost_pre_save stale_db cost_60 =
     Inr (cost_60\<lparr>cost_cost := Decimal False 6000000 (- 4),
                  cost_cost_estimate := Decimal False 7200000 (- 4)\<rparr>)"
  by (simp add: db_eval dec_eval stale_db_def bill_1000_def cost_60_def)

lemma post_save_bill_1000: "Bill_post_save stale_db bill_1000 = Inr settled_db"
  by (simp add: db_eval dec_eval stale_db_def settled_db_def bill_1000_def
      cost_40_def cost_60_def cost_other_def)

lemma save_new_dependency:
  "save platform_db (SystemDependencyInstance new_dependency) =
     Inr (platform_db_after, SystemDependencyInstance (new_dependency\<lparr>sd_id := Some 3\<rparr>))"
  by (simp add: db_eval platform_db_def platform_db_after_def new_dependency_def)

lemmas summary_eval = CostSummary_cost_def CostSummary_cost_estimate_def get_cost_queryset_def
  field_sum_def field_sum_integer_def call_cost_def call_cost_estimate_def CostSummary_year_def
  EndUserService_total_user_count_def Division_enduserservice_set_def
  Division_enduser_cost_def Division_enduser_estimate_def

lemmas example_defs = inactive_db_def inactive_bill_def cost_40_def bill_1000_def bill_2000_def
  cost_60_def cost_other_def stale_db_def fresh_db_def settled_db_def

lemma two_years_db_year:
  "CostSummary_year two_years_db =
     Some \<lparr>fy_id = 2, fy_start = (2023, 7, 1), fy_end = (2024, 6, 30)\<rparr>"
  by (simp add: CostSummary_year_def two_years_db_def less_eq_prod_def less_prod_def)

lemma two_years_db_cost:
  "CostSummary_cost two_years_db (AFinancialYear 2) = Decimal False 0 0"
  "CostSummary_cost_estimate two_years_db (AFinancialYear 2) = Decimal False 0 0"
  by (simp_all add: summary_eval two_years_db_def Decimal_of_int_def)

lemma year_db_year:
  "CostSummary_year year_db =
     Some \<lparr>fy_id = 1, fy_start = (2024, 7, 1), fy_end = (2025, 6, 30)\<rparr>"
  by (simp add: CostSummary_year_def year_db_def)

lemma year_db_cost:
  "CostSummary_cost year_db (AFinancialYear 1) = Decimal False 100000 (- 2)"
  "CostSummary_cost_estimate year_db (AFinancialYear 1) = Decimal False 120000 (- 2)"
  "call_cost year_db (AnEndUserService 1) = Inr (Decimal False 40500 (- 2))"
  "call_cost_estimate year_db (AnEndUserService 1) = Inr (Decimal False 48500 (- 2))"
  by (simp_all add: summary_eval year_db_def example_defs dec_eval)

lemma year_db_quotients:
  "bindE (Decimal_truediv (Decimal False 40500 (- 2)) (Decimal False 100000 (- 2))) (\<lambda>q.
     bindE (Decimal_round (Decimal_mul q (Decimal_of_int 100)) 2) (\<lambda>r. Inr (PyDecimal r))) =
   Inr (PyDecimal (Decimal False 4050 (- 2)))"
  "bindE (Decimal_truediv (Decimal False 48500 (- 2)) (Decimal False 120000 (- 2))) (\<lambda>q.
     bindE (Decimal_round (Decimal_mul q (Decimal_of_int 100)) 2) (\<lambda>r. Inr (PyDecimal r))) =
   Inr (PyDecimal (Decimal False 4042 (- 2)))"
  by (simp_all add: dec_eval)



lemma no_users_db_example:
  "\<lparr>service_id = 1\<rparr> \<in> set (Division_enduserservice_set no_users_db division_0)"
  "number_val (EndUserService_total_user_count no_users_db (service_id \<lparr>service_id = 1\<rparr>)) = 0"
  by (simp_all add: summary_eval no_users_db_def division_db_def division_0_def number_val_def)

lemma no_users_db_cost:
  "call_cost no_users_db (ADivision division_0) = Inl InvalidOperation"
  "call_cost_estimate no_users_db (ADivision division_0) = Inl InvalidOperation"
  "call_cost no_users_db (ADivision division_50) = Inl DivisionByZero"
  by (simp_all add: summary_eval no_users_db_def division_db_def division_0_def division_50_def
      dec_eval)

lemma save_cost_extra:
  "save stale_db (CostInstance cost_extra) = Inr (over_db, CostInstance cost_extra_saved)"
  by (simp add: db_eval dec_eval example_defs cost_extra_def cost_extra_saved_def over_db_def)

lemma over_db_percentages:
  "map (\<lambda>c. Decimal_val (cost_percentage c)) (Bill_cost_items over_db bill_1000) = [40, 60, 60]"
  by (simp add: Bill_cost_items_def example_defs cost_extra_def cost_extra_saved_def over_db_def
      Decimal_val_def signed_int_def)

section \<open>The claims\<close>

text \<open>
  C1.  After \<open>Cost.pre_save\<close>, \<open>cost\<close> and \<open>cost_estimate\<close> are the bill's figures times the
  percentage over 100 when the bill is active, and both 0 when it is not.  The code
  does not do the second: for the inactive bill of 1000.00 / 1200.00 and a row of 40.00
  percent, \<open>Cost.pre_save\<close> leaves \<open>cost = 400.0000\<close> and \<open>cost_estimate = 480.0000\<close>.
\<close>

theorem Cost_pre_save_inactive_bill:
  "\<not> bill_active inactive_bill \<and>
   Cost_pre_save inactive_db cost_40 =
     Inr (cost_40\<lparr>cost_cost := Decimal False 4000000 (- 4),
                  cost_cost_estimate := Decimal False 4800000 (- 4)\<rparr>) \<and>
   Decimal_val (Decimal False 4000000 (- 4)) = 400 \<and>
   Decimal_val (Decimal False 4800000 (- 4)) = 480"
  by (simp add: Cost_pre_save_def Bill_objects_get_def inactive_db_def inactive_bill_def
      cost_40_def Decimal_val_def dec_eval)

text \<open>
  C2.  After a successful save of a bill, every \<open>EndUserCost\<close> and \<open>ITPlatformCost\<close> row
  of that bill holds the \<open>cost\<close> and \<open>cost_estimate\<close> that the pre-save rule of \<open>Cost\<close>
  gives for the bill's current fields: the figures times the percentage over 100 for an
  active bill, 0 for an inactive one.  \<open>Bill.post_save\<close> does save every such row again
  (\<open>Bill_save_cascade\<close>), but what \<open>Cost.pre_save\<close> writes is not what the rule gives: after a
  save of the inactive bill of 1000.00 / 1200.00, its row of 40.00 percent, which held 0
  and 0, holds \<open>cost = 400.00\<close> and \<open>cost_estimate = 480.00\<close>.
\<close>

theorem Bill_save_inactive_bill:
  "\<not> bill_active inactive_bill \<and>
   primary_keys_ok inactive_db \<and>
   costs inactive_db = [cost_40] \<and>
   Decimal_val (cost_cost cost_40) = 0 \<and>
   Decimal_val (cost_cost_estimate cost_40) = 0 \<and>
   save inactive_db (BillInstance inactive_bill) =
     Inr (inactive_db\<lparr>costs := [cost_40\<lparr>cost_cost := Decimal False 40000 (- 2),
                                           cost_cost_estimate := Decimal False 48000 (- 2)\<rparr>]\<rparr>,
          BillInstance inactive_bill) \<and>
   Decimal_val (Decimal False 40000 (- 2)) = 400 \<and>
   Decimal_val (Decimal False 48000 (- 2)) = 480"
  by (simp add: db_eval dec_eval inactive_db_def inactive_bill_def cost_40_def Decimal_val_def)

text \<open>
  C8.  The recomputation is idempotent: \<open>Cost.pre_save\<close> applied to its own result returns
  that result, and \<open>Bill.post_save\<close> run again on the state it produced returns that
  state unchanged.
\<close>

theorem recompute_idempotent:
  "(Cost_pre_save db c = Inr c' \<longrightarrow> Cost_pre_save db c' = Inr c') \<and>
   (primary_keys_ok db \<and> Bill_post_save db b = Inr db1 \<longrightarrow> Bill_post_save db1 b = Inr db1)"
  using Cost_pre_save_idem[of db c c'] Bill_post_save_idem[of db b db1]
  by (simp add: primary_keys_ok_def)

theorem recompute_idempotent_witness:
  "Cost_pre_save stale_db cost_60 =
     Inr (cost_60\<lparr>cost_cost := Decimal False 6000000 (- 4),
                  cost_cost_estimate := Decimal False 7200000 (- 4)\<rparr>) \<and>
   Cost_pre_save stale_db
       (cost_60\<lparr>cost_cost := Decimal False 6000000 (- 4),
               cost_cost_estimate := Decimal False 7200000 (- 4)\<rparr>) =
     Inr (cost_60\<lparr>cost_cost := Decimal False 6000000 (- 4),
                  cost_cost_estimate := Decimal False 7200000 (- 4)\<rparr>) \<and>
   primary_keys_ok stale_db \<and>
   Bill_post_save stale_db bill_1000 = Inr settled_db \<and>
   Bill_post_save settled_db bill_1000 = Inr settled_db"
  using recompute_idempotent[of stale_db cost_60
      "cost_60\<lparr>cost_cost := Decimal False 6000000 (- 4),
              cost_cost_estimate := Decimal False 7200000 (- 4)\<rparr>" bill_1000 settled_db]
    pre_save_cost_60 stale_db_keys post_save_bill_1000
  by simp

text \<open>
  C4.  After a successful save of a \<open>SystemDependency\<close> (insert or update), the row of
  the platform it references holds as \<open>system_count\<close> the number of \<open>SystemDependency\<close>
  rows that reference that platform in the resulting state: the count is taken anew,
  whatever the stored value was.
\<close>

theorem SystemDependency_save_recounts:
  assumes "save db (SystemDependencyInstance sd) = Inr (db', inst)"
  shows "\<exists>sd' p. inst = SystemDependencyInstance sd' \<and> sd' \<in> set (systemdependencys db') \<and>
           sd_platform sd' = sd_platform sd \<and>
           Platform_objects_get db' (sd_platform sd) = Inr p \<and>
           platform_system_count p =
             length (filter (\<lambda>r. sd_platform r = sd_platform sd) (systemdependencys db'))"
proof -
  from assms obtain db1 sd' where p: "SystemDependency_persist db sd = Inr (db1, sd')"
    and ps: "SystemDependency_post_save db1 sd' = Inr db'"
    and inst: "inst = SystemDependencyInstance sd'"
    by (auto simp: save_SystemDependency bindE_eq_Inr)
  have pl: "sd_platform sd' = sd_platform sd"
    using p by (rule SystemDependency_persist_platform)
  from ps obtain q where q: "Platform_objects_get db1 (sd_platform sd) = Inr q"
    and sv: "Platform_save db1 (q\<lparr>platform_system_count :=
        length (filter (\<lambda>r. sd_platform r = sd_platform sd) (systemdependencys db1))\<rparr>) = Inr db'"
    by (auto simp: SystemDependency_post_save_def bindE_eq_Inr pl)
  define n where "n = length (filter (\<lambda>r. sd_platform r = sd_platform sd) (systemdependencys db1))"
  from Platform_save_existing[OF q, of n] obtain db2
    where "Platform_save db1 (q\<lparr>platform_system_count := n\<rparr>) = Inr db2"
      and "Platform_objects_get db2 (sd_platform sd) = Inr (q\<lparr>platform_system_count := n\<rparr>)"
      and "systemdependencys db2 = systemdependencys db1"
    by blast
  moreover have "db2 = db'"
    using sv calculation(1) by (simp add: n_def)
  ultimately have g: "Platform_objects_get db' (sd_platform sd) = Inr (q\<lparr>platform_system_count :=
        length (filter (\<lambda>r. sd_platform r = sd_platform sd) (systemdependencys db1))\<rparr>)"
    and same: "systemdependencys db' = systemdependencys db1"
    by (simp_all add: n_def)
  obtain rows where st: "save_table sd_id (\<lambda>i r. r\<lparr>sd_id := Some i\<rparr>) (systemdependencys db) sd
      = (rows, sd')" and db1: "db1 = db\<lparr>systemdependencys := rows\<rparr>"
    using p by (auto simp: SystemDependency_persist_def split: if_splits prod.splits)
  from save_table_find[OF st] obtain i where "find (\<lambda>r. sd_id r = Some i) rows = Some sd'"
    by auto
  then have "sd' \<in> set (systemdependencys db')"
    using same db1 by (auto dest: find_Some_pk)
  then show ?thesis
    using inst pl g same by auto
qed

theorem SystemDependency_save_recounts_witness:
  "save platform_db (SystemDependencyInstance new_dependency) =
     Inr (platform_db_after, SystemDependencyInstance (new_dependency\<lparr>sd_id := Some 3\<rparr>)) \<and>
   Platform_objects_get platform_db_after 1 =
     Inr \<lparr>platform_id = Some 1, platform_system_count = 2\<rparr> \<and>
   (\<exists>sd' p. SystemDependencyInstance (new_dependency\<lparr>sd_id := Some 3\<rparr>) =
              SystemDependencyInstance sd' \<and>
           sd' \<in> set (systemdependencys platform_db_after) \<and>
           sd_platform sd' = sd_platform new_dependency \<and>
           Platform_objects_get platform_db_after (sd_platform new_dependency) = Inr p \<and>
           platform_system_count p =
             length (filter (\<lambda>r. sd_platform r = sd_platform new_dependency)
                       (systemdependencys platform_db_after)))"
proof -
  have "Platform_objects_get platform_db_after 1 =
      Inr \<lparr>platform_id = Some 1, platform_system_count = 2\<rparr>"
    by (simp add: db_eval platform_db_def platform_db_after_def)
  then show ?thesis
    using SystemDependency_save_recounts[OF save_new_dependency] save_new_dependency
    by blast
qed

text \<open>
  C9.  The year every percentage is taken against, \<open>CostSummary.year\<close>, is a function of
  the table of financial years: when the table is not empty it is a row of the table
  whose end date is the earliest.
\<close>

theorem year_is_earliest_ending:
  assumes "financialyears db \<noteq> []"
  shows "\<exists>y. CostSummary_year db = Some y \<and> y \<in> set (financialyears db) \<and>
           (\<forall>y'\<in>set (financialyears db). fy_end y \<le> fy_end y')"
proof -
  have "sort_key fy_end (financialyears db) \<noteq> []"
    using assms by (metis length_sort length_0_conv)
  then obtain y ys where s: "sort_key fy_end (financialyears db) = y # ys"
    by (cases "sort_key fy_end (financialyears db)") auto
  then have "CostSummary_year db = Some y"
    by (simp add: CostSummary_year_def)
  then show ?thesis
    using sort_key_hd_min[OF s] by blast
qed

theorem year_is_earliest_ending_witness:
  "financialyears two_years_db \<noteq> [] \<and>
   CostSummary_year two_years_db =
     Some \<lparr>fy_id = 2, fy_start = (2023, 7, 1), fy_end = (2024, 6, 30)\<rparr> \<and>
   (\<exists>y. CostSummary_year two_years_db = Some y \<and> y \<in> set (financialyears two_years_db) \<and>
        (\<forall>y'\<in>set (financialyears two_years_db). fy_end y \<le> fy_end y'))"
proof -
  have ne: "financialyears two_years_db \<noteq> []"
    by (simp add: two_years_db_def)
  have "CostSummary_year two_years_db =
     Some \<lparr>fy_id = 2, fy_start = (2023, 7, 1), fy_end = (2024, 6, 30)\<rparr>"
    by (simp add: CostSummary_year_def two_years_db_def less_eq_prod_def less_prod_def)
  then show ?thesis
    using year_is_earliest_ending[OF ne] ne by blast
qed

text \<open>
  C10.  When there is no financial year, \<open>CostSummary.year\<close> is \<open>None\<close> and both
  \<open>cost_percentage\<close> and \<open>cost_estimate_percentage\<close> raise (an attribute of \<open>None\<close> is
  read), for every object: they do not return 0.
\<close>

theorem no_year_raises:
  assumes "financialyears db = []"
  shows "CostSummary_year db = None \<and>
         CostSummary_cost_percentage db e = Inl AttributeError \<and>
         CostSummary_cost_estimate_percentage db e = Inl AttributeError"
  using assms
  by (simp add: CostSummary_year_def CostSummary_cost_percentage_def
      CostSummary_cost_estimate_percentage_def)

theorem no_year_raises_witness:
  "financialyears inactive_db = [] \<and> CostSummary_year inactive_db = None \<and>
   CostSummary_cost_percentage inactive_db (AnEndUserService 1) = Inl AttributeError \<and>
   CostSummary_cost_estimate_percentage inactive_db (AnEndUserService 1) = Inl AttributeError"
proof -
  have e: "financialyears inactive_db = []"
    by (simp add: inactive_db_def)
  show ?thesis
    using no_year_raises[OF e, of "AnEndUserService 1"] e by simp
qed

text \<open>
  C3.  With a financial year to refer to: when the year's \<open>cost()\<close> is 0,
  \<open>cost_percentage()\<close> returns 0 and raises nothing (the object's own \<open>cost()\<close> is not
  even evaluated); otherwise it is \<open>round(self.cost() / year_cost * 100, 2)\<close> in decimal
  arithmetic, where the division by the year's cost cannot raise.  The same for
  \<open>cost_estimate_percentage()\<close> with \<open>cost_estimate()\<close>.
\<close>

theorem cost_percentage_guard:
  assumes "CostSummary_year db = Some y"
  shows
   "(Decimal_val (CostSummary_cost db (AFinancialYear (fy_id y))) = 0 \<longrightarrow>
       CostSummary_cost_percentage db e = Inr (PyInt 0)) \<and>
    (Decimal_val (CostSummary_cost db (AFinancialYear (fy_id y))) \<noteq> 0 \<longrightarrow>
       CostSummary_cost_percentage db e =
         bindE (call_cost db e) (\<lambda>c.
           bindE (Decimal_truediv c (CostSummary_cost db (AFinancialYear (fy_id y)))) (\<lambda>q.
             bindE (Decimal_round (Decimal_mul q (Decimal_of_int 100)) 2) (\<lambda>r.
               Inr (PyDecimal r)))) \<and>
       (\<forall>c. \<exists>q. Decimal_truediv c (CostSummary_cost db (AFinancialYear (fy_id y))) = Inr q)) \<and>
    (Decimal_val (CostSummary_cost_estimate db (AFinancialYear (fy_id y))) = 0 \<longrightarrow>
       CostSummary_cost_estimate_percentage db e = Inr (PyInt 0)) \<and>
    (Decimal_val (CostSummary_cost_estimate db (AFinancialYear (fy_id y))) \<noteq> 0 \<longrightarrow>
       CostSummary_cost_estimate_percentage db e =
         bindE (call_cost_estimate db e) (\<lambda>c.
           bindE (Decimal_truediv c (CostSummary_cost_estimate db (AFinancialYear (fy_id y)))) (\<lambda>q.
             bindE (Decimal_round (Decimal_mul q (Decimal_of_int 100)) 2) (\<lambda>r.
               Inr (PyDecimal r)))) \<and>
       (\<forall>c. \<exists>q. Decimal_truediv c (CostSummary_cost_estimate db (AFinancialYear (fy_id y))) = Inr q))"
  using assms
  by (simp add: CostSummary_cost_percentage_def CostSummary_cost_estimate_percentage_def
      Decimal_eq_val Decimal_val_zero_iff Decimal_truediv_nonzero)

theorem cost_percentage_guard_witness:
  "CostSummary_year two_years_db =
     Some \<lparr>fy_id = 2, fy_start = (2023, 7, 1), fy_end = (2024, 6, 30)\<rparr> \<and>
   Decimal_val (CostSummary_cost two_years_db (AFinancialYear 2)) = 0 \<and>
   Decimal_val (CostSummary_cost_estimate two_years_db (AFinancialYear 2)) = 0 \<and>
   CostSummary_cost_percentage two_years_db (AnEndUserService 1) = Inr (PyInt 0) \<and>
   CostSummary_cost_estimate_percentage two_years_db (AnEndUserService 1) = Inr (PyInt 0) \<and>
   CostSummary_year year_db =
     Some \<lparr>fy_id = 1, fy_start = (2024, 7, 1), fy_end = (2025, 6, 30)\<rparr> \<and>
   Decimal_val (CostSummary_cost year_db (AFinancialYear 1)) = 1000 \<and>
   Decimal_val (CostSummary_cost_estimate year_db (AFinancialYear 1)) = 1200 \<and>
   CostSummary_cost_percentage year_db (AnEndUserService 1) =
     Inr (PyDecimal (Decimal False 4050 (- 2))) \<and>
   CostSummary_cost_estimate_percentage year_db (AnEndUserService 1) =
     Inr (PyDecimal (Decimal False 4042 (- 2)))"
proof -
  have v: "Decimal_val (Decimal False 0 0) = 0" "Decimal_val (Decimal False 100000 (- 2)) = 1000"
    "Decimal_val (Decimal False 120000 (- 2)) = 1200"
    by (simp_all add: Decimal_val_def signed_int_def)
  show ?thesis
    using cost_percentage_guard[OF two_years_db_year, of "AnEndUserService 1"]
      cost_percentage_guard[OF year_db_year, of "AnEndUserService 1"]
    by (simp add: two_years_db_year two_years_db_cost year_db_year year_db_cost
        year_db_quotients v del: One_nat_def)
qed


text \<open>
  C6.  When a service the division is linked to has a total user count of 0, neither
  \<open>Division.cost()\<close> nor \<open>Division.cost_estimate()\<close> returns a value: each raises one of
  the two division errors the decimal context traps, \<open>DivisionByZero\<close> (\<open>x / 0\<close>) or
  \<open>InvalidOperation\<close> (\<open>0 / 0\<close>).
\<close>

theorem zero_total_user_count_raises:
  assumes "s \<in> set (Division_enduserservice_set db d)"
    and "number_val (EndUserService_total_user_count db (service_id s)) = 0"
  shows "(call_cost db (ADivision d) = Inl DivisionByZero \<or>
          call_cost db (ADivision d) = Inl InvalidOperation) \<and>
         (call_cost_estimate db (ADivision d) = Inl DivisionByZero \<or>
          call_cost_estimate db (ADivision d) = Inl InvalidOperation)"
proof -
  let ?rs = "map (\<lambda>s. Division_share db d (service_id s)) (Division_enduserservice_set db d)"
  let ?es = "map (\<lambda>s. Division_share_estimate db d (service_id s))
      (Division_enduserservice_set db d)"
  obtain e where e: "Division_share db d (service_id s) = Inl e"
    and e': "Division_share_estimate db d (service_id s) = Inl e"
    using Division_share_zero_total[OF assms(2), of d] by (cases "division_user_count d = 0") auto
  have "Inl e \<in> set ?rs"
    using assms(1) e by (force simp: image_iff)
  moreover have "\<And>e'. Inl e' \<in> set ?rs \<Longrightarrow> e' = DivisionByZero \<or> e' = InvalidOperation"
    by (auto dest: Division_share_errors(1)[OF sym])
  ultimately have 1: "sum_shares (Decimal_of_int 0) ?rs = Inl DivisionByZero \<or>
      sum_shares (Decimal_of_int 0) ?rs = Inl InvalidOperation"
    by (rule sum_shares_error)
  have "Inl e \<in> set ?es"
    using assms(1) e' by (force simp: image_iff)
  moreover have "\<And>e'. Inl e' \<in> set ?es \<Longrightarrow> e' = DivisionByZero \<or> e' = InvalidOperation"
    by (auto dest: Division_share_errors(2)[OF sym])
  ultimately have 2: "sum_shares (Decimal_of_int 0) ?es = Inl DivisionByZero \<or>
      sum_shares (Decimal_of_int 0) ?es = Inl InvalidOperation"
    by (rule sum_shares_error)
  show ?thesis
    using 1 2
    by (simp add: call_cost_def call_cost_estimate_def Division_enduser_cost_shares
        Division_enduser_estimate_shares)
qed

theorem zero_total_user_count_raises_witness:
  "\<lparr>service_id = 1\<rparr> \<in> set (Division_enduserservice_set no_users_db division_0) \<and>
   number_val (EndUserService_total_user_count no_users_db (service_id \<lparr>service_id = 1\<rparr>)) = 0 \<and>
   (call_cost no_users_db (ADivision division_0) = Inl DivisionByZero \<or>
    call_cost no_users_db (ADivision division_0) = Inl InvalidOperation) \<and>
   (call_cost_estimate no_users_db (ADivision division_0) = Inl DivisionByZero \<or>
    call_cost_estimate no_users_db (ADivision division_0) = Inl InvalidOperation) \<and>
   call_cost no_users_db (ADivision division_0) = Inl InvalidOperation \<and>
   call_cost no_users_db (ADivision division_50) = Inl DivisionByZero"
  using zero_total_user_count_raises[OF no_users_db_example] no_users_db_example no_users_db_cost
  by blast

text \<open>
  C7.  For a bill whose cost rows have no negative percentage (the field's validator):
  \<open>allocated()\<close> is the sum of the percentages of its rows, 0 without rows; among the
  bills of a list the filter shows it under exactly one label, \<open>None\<close> for the sum 0,
  \<open>Partially\<close> between 0 and 100, \<open>100%\<close> for 100 and \<open>Over allocated\<close> above 100; and
  the save of a cost row succeeds whenever its bill exists, whatever the percentages
  add up to.
\<close>

theorem allocated_classification:
  assumes "b \<in> set qs"
    and "\<forall>c\<in>set (Bill_cost_items db b). 0 \<le> Decimal_val (cost_percentage c)"
  shows "number_val (Bill_allocated db b) =
           sum_list (map (\<lambda>c. Decimal_val (cost_percentage c)) (Bill_cost_items db b)) \<and>
         AllocatedListFilter_labels db qs b =
           [if number_val (Bill_allocated db b) = 0 then ''None''
            else if number_val (Bill_allocated db b) < 100 then ''Partially''
            else if number_val (Bill_allocated db b) = 100 then ''100%''
            else ''Over allocated''] \<and>
         (\<forall>c bill. Bill_objects_get db (cost_bill c) = Inr bill \<longrightarrow>
            (\<exists>db' c'. save db (CostInstance c) = Inr (db', CostInstance c') \<and>
               c' \<in> set (costs db')))"
proof -
  have nonneg: "0 \<le> number_val (Bill_allocated db b)"
    unfolding Bill_allocated_val using assms(2) by (intro sum_list_nonneg) auto
  have "AllocatedListFilter_labels db qs b =
           [if number_val (Bill_allocated db b) = 0 then ''None''
            else if number_val (Bill_allocated db b) < 100 then ''Partially''
            else if number_val (Bill_allocated db b) = 100 then ''100%''
            else ''Over allocated'']"
    using nonneg
    by (simp add: AllocatedListFilter_labels_def AllocatedListFilter_lookups_def
        in_AllocatedListFilter_queryset[OF assms])
  then show ?thesis
    using save_Cost_succeeds by (simp add: Bill_allocated_val) 
qed

theorem allocated_classification_witness:
  "save stale_db (CostInstance cost_extra) = Inr (over_db, CostInstance cost_extra_saved) \<and>
   bill_1000 \<in> set [bill_1000] \<and>
   map (\<lambda>c. Decimal_val (cost_percentage c)) (Bill_cost_items over_db bill_1000) = [40, 60, 60] \<and>
   number_val (Bill_allocated over_db bill_1000) = 160 \<and>
   AllocatedListFilter_labels over_db [bill_1000] bill_1000 = [''Over allocated'']"
proof -
  have b: "bill_1000 \<in> set [bill_1000]"
    by simp
  have "\<forall>x\<in>set (map (\<lambda>c. Decimal_val (cost_percentage c)) (Bill_cost_items over_db bill_1000)).
      0 \<le> x"
    unfolding over_db_percentages by simp
  then have nonneg: "\<forall>c\<in>set (Bill_cost_items over_db bill_1000). 0 \<le> Decimal_val (cost_percentage c)"
    by simp
  have "number_val (Bill_allocated over_db bill_1000) = 160"
    using allocated_classification[OF b nonneg] by (simp add: over_db_percentages)
  then show ?thesis
    using allocated_classification[OF b nonneg] save_cost_extra over_db_percentages
    by simp
qed

end
